theory Spec2Isabelle
  imports Complex_Main "HOL-Library.AList" "HOL-Library.Multiset"
begin

section \<open>Calendar dates\<close>

text \<open>
  The program stores a calendar date as the ISO string \<^verbatim>\<open>YYYY-MM-DD\<close> and moves between
  that string and JavaScript \<^verbatim>\<open>Date\<close> objects. A date is represented here by its day
  number, the number of days since 1970-01-01. On ISO strings of valid dates
  \<^verbatim>\<open>a.localeCompare(b)\<close> and \<^verbatim>\<open><=\<close> follow the order of the day numbers,
  \<^verbatim>\<open>===\<close> is equality, \<^verbatim>\<open>new Date(s).getTime()\<close> is 86400000 times the day number, and
  \<^verbatim>\<open>d.toISOString().split('T')[0]\<close> gives the string back. The local time zone of the
  process is taken to be UTC, so that \<^verbatim>\<open>getDay\<close>, \<^verbatim>\<open>getDate\<close> and \<^verbatim>\<open>setDate\<close> act
  on the same calendar day as \<^verbatim>\<open>toISOString\<close>; the time of day of "now" is dropped,
  since every comparison in the code is between a midnight and "now".
\<close>

type_synonym date = int

definition days_from_civil :: "int \<Rightarrow> int \<Rightarrow> int \<Rightarrow> date" where
  \<comment> \<open>the day number of year \<open>y\<close>, month \<open>m\<close> (1 to 12), day \<open>d\<close>\<close>
  "days_from_civil y m d =
     (let y' = (if m \<le> 2 then y - 1 else y);
          era = y' div 400;
          yoe = y' - era * 400;
          doy = (153 * (if m > 2 then m - 3 else m + 9) + 2) div 5 + d - 1;
          doe = yoe * 365 + yoe div 4 - yoe div 100 + doy
      in era * 146097 + doe - 719468)"




definition getDay :: "date \<Rightarrow> int" where
  \<comment> \<open>0 is Sunday; 1970-01-01 was a Thursday\<close>
  "getDay d = (d + 4) mod 7"

definition Math_round :: "rat \<Rightarrow> int" where
  \<comment> \<open>\<^verbatim>\<open>Math.round\<close>: the nearest integer, a half rounding up. The quotients of counters
      it is applied to are taken exactly, not in floating point.\<close>
  "Math_round x = \<lfloor>x + 1 / 2\<rfloor>"

function show_nat :: "nat \<Rightarrow> string" where
  "show_nat n =
     (if n < 10 then [char_of (n + 48)]
      else show_nat (n div 10) @ [char_of (n mod 10 + 48)])"
  by pat_completeness auto
termination
  by (relation "measure id") auto

section \<open>Data model (shared/schema.ts)\<close>

datatype PrayerType = Fajr | Dhuhr | Asr | Maghrib | Isha

record PrayerStatus =
  completed :: bool
  onTime :: bool
  completedAt :: "string option"

record DailyPrayers =
  fajr :: PrayerStatus
  dhuhr :: PrayerStatus
  asr :: PrayerStatus
  maghrib :: PrayerStatus
  isha :: PrayerStatus

definition Object_values :: "DailyPrayers \<Rightarrow> PrayerStatus list" where
  "Object_values p = [fajr p, dhuhr p, asr p, maghrib p, isha p]"

fun slot :: "PrayerType \<Rightarrow> DailyPrayers \<Rightarrow> PrayerStatus" where
  "slot Fajr p = fajr p"
| "slot Dhuhr p = dhuhr p"
| "slot Asr p = asr p"
| "slot Maghrib p = maghrib p"
| "slot Isha p = isha p"

text \<open>
  A prayer record. The column \<^verbatim>\<open>prayers\<close> is declared not null, but the code tests
  \<^verbatim>\<open>if (record.prayers)\<close> before every use, so the field is optional here and the test
  is a branch of the model.
\<close>

record PrayerRecord =
  id :: string
  userId :: "string option"
  date :: date
  prayers :: "DailyPrayers option"
  createdAt :: nat
  updatedAt :: nat

datatype jsval = JNum int | JStr string | JDate date

type_synonym metadata = "(string \<times> jsval) list"

text \<open>The object a rule function pushes: type, title, description, metadata.\<close>

record AchievementDescriptor =
  type :: string
  title :: string
  description :: string
  metadata :: "metadata option"

section \<open>Achievement rules (client/src/lib/prayer-utils.ts)\<close>

definition streakMilestones :: "int list" where
  "streakMilestones = [7, 30, 50, 100, 200, 365]"

definition streakTitle :: "int \<Rightarrow> string \<times> string" where
  "streakTitle milestone =
     (if milestone = 7 then (''Week Warrior'', ''7-day prayer streak achieved!'')
      else if milestone = 30 then (''Monthly Master'', ''30-day prayer streak achieved!'')
      else if milestone = 50 then (''Consistency Champion'', ''50-day prayer streak achieved!'')
      else if milestone = 100 then (''Century Devotee'', ''100-day prayer streak achieved!'')
      else if milestone = 200 then (''Dedication Legend'', ''200-day prayer streak achieved!'')
      else if milestone = 365 then (''Yearly Devotee'', ''365-day prayer streak achieved!'')
      else (show_nat (nat milestone) @ ''-Day Streak'',
            show_nat (nat milestone) @ ''-day prayer streak achieved!''))"

definition streakDescriptor :: "date \<Rightarrow> int \<Rightarrow> AchievementDescriptor" where
  "streakDescriptor today milestone =
     \<lparr> type = ''streak_milestone'',
       title = fst (streakTitle milestone),
       description = snd (streakTitle milestone),
       metadata = Some [(''streakDays'', JNum milestone), (''earnedDate'', JDate today)] \<rparr>"

text \<open>The loop over the milestones; the \<^verbatim>\<open>break\<close> ends it at the first match.\<close>

fun checkStreakLoop :: "date \<Rightarrow> int \<Rightarrow> int list \<Rightarrow> AchievementDescriptor list" where
  "checkStreakLoop today currentStreak [] = []"
| "checkStreakLoop today currentStreak (milestone # rest) =
     (if currentStreak = milestone then [streakDescriptor today milestone]
      else checkStreakLoop today currentStreak rest)"

definition checkStreakAchievements :: "date \<Rightarrow> int \<Rightarrow> AchievementDescriptor list" where
  "checkStreakAchievements today currentStreak =
     checkStreakLoop today currentStreak streakMilestones"

definition prayerMilestones :: "int list" where
  "prayerMilestones = [50, 100, 250, 500, 1000, 2500, 5000]"

definition prayerTitle :: "int \<Rightarrow> string \<times> string" where
  "prayerTitle milestone =
     (if milestone = 50 then (''Prayer Beginner'', ''50 prayers completed!'')
      else if milestone = 100 then (''Prayer Enthusiast'', ''100 prayers completed!'')
      else if milestone = 250 then (''Prayer Devotee'', ''250 prayers completed!'')
      else if milestone = 500 then (''Prayer Champion'', ''500 prayers completed!'')
      else if milestone = 1000 then (''Prayer Master'', ''1000 prayers completed!'')
      else if milestone = 2500 then (''Prayer Legend'', ''2500 prayers completed!'')
      else if milestone = 5000 then (''Prayer Saint'', ''5000 prayers completed!'')
      else (show_nat (nat milestone) @ '' Prayers'',
            show_nat (nat milestone) @ '' prayers completed!''))"

definition prayerDescriptor :: "date \<Rightarrow> int \<Rightarrow> AchievementDescriptor" where
  "prayerDescriptor today milestone =
     \<lparr> type = ''prayer_milestone'',
       title = fst (prayerTitle milestone),
       description = snd (prayerTitle milestone),
       metadata = Some [(''totalPrayers'', JNum milestone), (''earnedDate'', JDate today)] \<rparr>"

fun checkPrayerLoop :: "date \<Rightarrow> int \<Rightarrow> int list \<Rightarrow> AchievementDescriptor list" where
  "checkPrayerLoop today totalPrayers [] = []"
| "checkPrayerLoop today totalPrayers (milestone # rest) =
     (if totalPrayers = milestone then [prayerDescriptor today milestone]
      else checkPrayerLoop today totalPrayers rest)"

definition checkPrayerMilestones :: "date \<Rightarrow> int \<Rightarrow> AchievementDescriptor list" where
  "checkPrayerMilestones today totalPrayers =
     checkPrayerLoop today totalPrayers prayerMilestones"

section \<open>Statistics recomputation (server/routes.ts)\<close>

definition getTime :: "date \<Rightarrow> int" where
  \<comment> \<open>milliseconds since the epoch of the midnight that starts the day\<close>
  "getTime d = 86400000 * d"

definition daysDiff :: "date \<Rightarrow> date \<Rightarrow> int" where
  "daysDiff previousDate currentDate =
     (getTime previousDate - getTime currentDate) div (1000 * 60 * 60 * 24)"

definition allCompleted :: "DailyPrayers \<Rightarrow> bool" where
  \<comment> \<open>\<^verbatim>\<open>dayPrayers.every(prayer => prayer.completed)\<close>\<close>
  "allCompleted p = list_all completed (Object_values p)"

definition sortDescending :: "PrayerRecord list \<Rightarrow> PrayerRecord list" where
  \<comment> \<open>\<^verbatim>\<open>sort((a, b) => b.date.localeCompare(a.date))\<close>, a stable sort\<close>
  "sortDescending records = sort_key (\<lambda>r. - date r) records"

definition sortAscending :: "PrayerRecord list \<Rightarrow> PrayerRecord list" where
  \<comment> \<open>\<^verbatim>\<open>sort((a, b) => a.date.localeCompare(b.date))\<close>, a stable sort\<close>
  "sortAscending records = sort_key date records"

text \<open>
  The first loop (lines 35 to 59). Its state is the triple of \<^verbatim>\<open>currentStreak\<close>,
  \<^verbatim>\<open>streakBroken\<close> and \<^verbatim>\<open>previousDate\<close>.
\<close>

fun streakStep :: "int \<times> bool \<times> date option \<Rightarrow> PrayerRecord \<Rightarrow> int \<times> bool \<times> date option" where
  "streakStep (currentStreak, streakBroken, previousDate) record =
     (case prayers record of
        None \<Rightarrow> (currentStreak, streakBroken, previousDate)
      | Some dayPrayers \<Rightarrow>
          (let currentDate = date record;
               broken = (case previousDate of
                           None \<Rightarrow> streakBroken
                         | Some prev \<Rightarrow>
                             (if daysDiff prev currentDate > 1 then True else streakBroken))
           in if \<not> broken \<and> allCompleted dayPrayers
              then (currentStreak + 1, broken, Some currentDate)
              else if \<not> allCompleted dayPrayers then (currentStreak, True, previousDate)
              else (currentStreak, broken, previousDate)))"

definition currentStreakOf :: "PrayerRecord list \<Rightarrow> int" where
  "currentStreakOf sortedRecords = fst (foldl streakStep (0, False, None) sortedRecords)"

text \<open>
  The second loop (lines 62 to 90). The inner \<^verbatim>\<open>forEach\<close> counts one prayer; the state of
  the outer loop is \<^verbatim>\<open>totalPrayers\<close>, \<^verbatim>\<open>onTimePrayers\<close>, \<^verbatim>\<open>qazaPrayers\<close>, \<^verbatim>\<open>tempStreak\<close>,
  \<^verbatim>\<open>bestStreak\<close>.
\<close>

fun countPrayer :: "int \<times> int \<times> int \<Rightarrow> PrayerStatus \<Rightarrow> int \<times> int \<times> int" where
  "countPrayer (totalP, onTimeP, qazaP) prayer =
     (if completed prayer
      then (totalP + 1, if onTime prayer then onTimeP + 1 else onTimeP, qazaP)
      else (totalP, onTimeP, qazaP + 1))"

fun historyStep :: "int \<times> int \<times> int \<times> int \<times> int \<Rightarrow> PrayerRecord \<Rightarrow> int \<times> int \<times> int \<times> int \<times> int" where
  "historyStep (totalP, onTimeP, qazaP, tempStreak, best) record =
     (case prayers record of
        None \<Rightarrow> (totalP, onTimeP, qazaP, tempStreak, best)
      | Some dayPrayers \<Rightarrow>
          (case foldl countPrayer (totalP, onTimeP, qazaP) (Object_values dayPrayers) of
             (totalP', onTimeP', qazaP') \<Rightarrow>
               if allCompleted dayPrayers
               then (totalP', onTimeP', qazaP', tempStreak + 1, max best (tempStreak + 1))
               else (totalP', onTimeP', qazaP', 0, best)))"

definition historyOf :: "PrayerRecord list \<Rightarrow> int \<times> int \<times> int \<times> int \<times> int" where
  "historyOf chronologicalRecords = foldl historyStep (0, 0, 0, 0, 0) chronologicalRecords"

text \<open>
  \<^verbatim>\<open>groupRecordsByWeek\<close>. The object \<^verbatim>\<open>weeks\<close> is an association list in insertion order;
  an entry is the pair of \<^verbatim>\<open>completed\<close> and \<^verbatim>\<open>total\<close>.
\<close>

definition weekKeyOf :: "date \<Rightarrow> date" where
  \<comment> \<open>\<^verbatim>\<open>weekStart.setDate(date.getDate() - (date.getDay() === 0 ? 6 : date.getDay() - 1))\<close>\<close>
  "weekKeyOf d = d - (if getDay d = 0 then 6 else getDay d - 1)"

definition weekSlot :: "date \<Rightarrow> (date \<times> int \<times> int) list \<Rightarrow> PrayerStatus \<Rightarrow> (date \<times> int \<times> int) list" where
  "weekSlot weekKey weeks prayer =
     (case map_of weeks weekKey of
        None \<Rightarrow> weeks
      | Some (compl, totalP) \<Rightarrow>
          AList.update weekKey (if completed prayer then compl + 1 else compl, totalP + 1) weeks)"

definition weekStep :: "(date \<times> int \<times> int) list \<Rightarrow> PrayerRecord \<Rightarrow> (date \<times> int \<times> int) list" where
  "weekStep weeks record =
     (let weekKey = weekKeyOf (date record);
          weeks1 = (case map_of weeks weekKey of
                      None \<Rightarrow> AList.update weekKey (0, 0) weeks
                    | Some _ \<Rightarrow> weeks)
      in case prayers record of
           None \<Rightarrow> weeks1
         | Some dayPrayers \<Rightarrow> foldl (weekSlot weekKey) weeks1 (Object_values dayPrayers))"

definition completionRate :: "int \<times> int \<Rightarrow> int" where
  "completionRate week =
     (case week of (compl, totalP) \<Rightarrow>
        if totalP > 0 then Math_round (of_int compl / of_int totalP * 100) else 0)"

definition groupRecordsByWeek :: "PrayerRecord list \<Rightarrow> int list" where
  "groupRecordsByWeek records =
     map completionRate
       (filter (\<lambda>week. snd week \<ge> 35) (map snd (foldl weekStep [] records)))"

definition perfectWeeksOf :: "PrayerRecord list \<Rightarrow> int" where
  "perfectWeeksOf chronologicalRecords =
     int (length (filter (\<lambda>rate. rate = 100) (groupRecordsByWeek chronologicalRecords)))"

text \<open>
  The fields written to the store: \<^verbatim>\<open>InsertUserStats\<close> and \<^verbatim>\<open>Partial<UserStats>\<close>, every
  field optional.
\<close>

record InsertUserStats =
  userId :: "string option"
  totalPrayers :: "int option"
  onTimePrayers :: "int option"
  qazaPrayers :: "int option"
  currentStreak :: "int option"
  bestStreak :: "int option"
  perfectWeeks :: "int option"
  lastStreakUpdate :: "date option"

record UserStats =
  id :: string
  userId :: "string option"
  totalPrayers :: int
  onTimePrayers :: int
  qazaPrayers :: int
  currentStreak :: int
  bestStreak :: int
  perfectWeeks :: int
  lastStreakUpdate :: "date option"
  updatedAt :: nat

text \<open>
  Lines 24 to 97 and the object of lines 103 to 123: the statistics computed from the
  records the store returned. The second \<^verbatim>\<open>sort\<close> works on the array the first one has
  already reordered.
\<close>

definition computeStatistics :: "string \<Rightarrow> date \<Rightarrow> PrayerRecord list \<Rightarrow> InsertUserStats" where
  "computeStatistics user today allRecords =
     (let sortedRecords = sortDescending allRecords;
          streak = currentStreakOf sortedRecords;
          chronologicalRecords = sortAscending sortedRecords
      in case historyOf chronologicalRecords of
           (totalP, onTimeP, qazaP, tempStreak, best) \<Rightarrow>
             \<lparr> InsertUserStats.userId = Some user,
               InsertUserStats.totalPrayers = Some totalP,
               InsertUserStats.onTimePrayers = Some onTimeP,
               InsertUserStats.qazaPrayers = Some qazaP,
               InsertUserStats.currentStreak = Some streak,
               InsertUserStats.bestStreak = Some (max best streak),
               InsertUserStats.perfectWeeks = Some (perfectWeeksOf chronologicalRecords),
               InsertUserStats.lastStreakUpdate = Some today \<rparr>)"

section \<open>The in-memory store (server/storage.ts, class MemStorage)\<close>

record InsertAchievement = AchievementDescriptor +
  userId :: "string option"
  earnedDate :: date

record Achievement = InsertAchievement +
  id :: string
  createdAt :: nat

text \<open>
  A JavaScript \<^verbatim>\<open>Map\<close> is an association list in insertion order: \<^verbatim>\<open>set\<close> on a key
  that is present replaces the value in place, on a new key it appends. The key
  \<^verbatim>\<open>`${userId}-${date}`\<close> of a prayer record is the pair of user and date. The map of
  users plays no part in what follows and is left out.
\<close>

record MemStorage =
  prayerRecords :: "((string \<times> date) \<times> PrayerRecord) list"
  achievements :: "(string \<times> Achievement) list"
  userStats :: "(string option \<times> UserStats) list"

definition emptyStorage :: MemStorage where
  "emptyStorage = \<lparr> prayerRecords = [], achievements = [], userStats = [] \<rparr>"

definition orDemoUser :: "string option \<Rightarrow> string" where
  \<comment> \<open>\<^verbatim>\<open>userId || "demo-user"\<close>: null, undefined and the empty string give the default\<close>
  "orDemoUser u = (case u of None \<Rightarrow> ''demo-user'' | Some v \<Rightarrow> if v = [] then ''demo-user'' else v)"

definition orZero :: "int option \<Rightarrow> int" where
  \<comment> \<open>\<^verbatim>\<open>n || 0\<close>\<close>
  "orZero n = (case n of None \<Rightarrow> 0 | Some v \<Rightarrow> v)"

definition getPrayerRecord :: "MemStorage \<Rightarrow> string \<Rightarrow> date \<Rightarrow> PrayerRecord option" where
  "getPrayerRecord s user d = map_of (prayerRecords s) (user, d)"

definition getPrayerRecords :: "MemStorage \<Rightarrow> string \<Rightarrow> date option \<Rightarrow> date option \<Rightarrow> PrayerRecord list" where
  "getPrayerRecords s user startDate endDate =
     (let records = filter (\<lambda>r. PrayerRecord.userId r = Some user) (map snd (prayerRecords s))
      in case (startDate, endDate) of
           (Some a, Some b) \<Rightarrow> filter (\<lambda>r. date r \<ge> a \<and> date r \<le> b) records
         | _ \<Rightarrow> records)"

definition createPrayerRecord ::
  "MemStorage \<Rightarrow> string option \<Rightarrow> date \<Rightarrow> DailyPrayers option \<Rightarrow> string \<Rightarrow> nat \<Rightarrow> PrayerRecord \<times> MemStorage" where
  "createPrayerRecord s user d p uuid now =
     (let record = \<lparr> PrayerRecord.id = uuid, PrayerRecord.userId = Some (orDemoUser user),
                      date = d, prayers = p,
                      PrayerRecord.createdAt = now, PrayerRecord.updatedAt = now \<rparr>
      in (record, s\<lparr> prayerRecords := AList.update (orDemoUser user, d) record (prayerRecords s) \<rparr>))"

definition updatePrayerRecord ::
  "MemStorage \<Rightarrow> string \<Rightarrow> date \<Rightarrow> DailyPrayers option \<Rightarrow> string \<Rightarrow> nat \<Rightarrow> PrayerRecord \<times> MemStorage" where
  "updatePrayerRecord s user d p uuid now =
     (case map_of (prayerRecords s) (user, d) of
        Some existing \<Rightarrow>
          (let updated = existing\<lparr> prayers := p, PrayerRecord.updatedAt := now \<rparr>
           in (updated, s\<lparr> prayerRecords := AList.update (user, d) updated (prayerRecords s) \<rparr>))
      | None \<Rightarrow> createPrayerRecord s (Some user) d p uuid now)"

definition sameKey :: "string \<Rightarrow> InsertAchievement \<Rightarrow> Achievement \<Rightarrow> bool" where
  \<comment> \<open>the test of \<^verbatim>\<open>find\<close> in \<^verbatim>\<open>createAchievement\<close>\<close>
  "sameKey user ins a \<longleftrightarrow>
     InsertAchievement.userId a = Some user \<and> type a = type ins \<and> earnedDate a = earnedDate ins"

definition createAchievement ::
  "MemStorage \<Rightarrow> InsertAchievement \<Rightarrow> string \<Rightarrow> nat \<Rightarrow> Achievement \<times> MemStorage" where
  "createAchievement s ins uuid now =
     (let user = orDemoUser (InsertAchievement.userId ins)
      in case find (sameKey user ins) (map snd (achievements s)) of
           Some existingAchievement \<Rightarrow> (existingAchievement, s)
         | None \<Rightarrow>
             (let achievement =
                    \<lparr> type = type ins, title = title ins, description = description ins,
                      metadata = metadata ins,
                      InsertAchievement.userId = Some user, earnedDate = earnedDate ins,
                      Achievement.id = uuid, Achievement.createdAt = now \<rparr>
              in (achievement, s\<lparr> achievements := AList.update uuid achievement (achievements s) \<rparr>)))"

definition getUserStats :: "MemStorage \<Rightarrow> string \<Rightarrow> UserStats option" where
  "getUserStats s user = map_of (userStats s) (Some user)"

definition orNull :: "string option \<Rightarrow> string option" where
  \<comment> \<open>\<^verbatim>\<open>userId || null\<close>\<close>
  "orNull u = (case u of None \<Rightarrow> None | Some v \<Rightarrow> if v = [] then None else Some v)"

definition createUserStats :: "MemStorage \<Rightarrow> InsertUserStats \<Rightarrow> string \<Rightarrow> nat \<Rightarrow> UserStats \<times> MemStorage" where
  "createUserStats s ins uuid now =
     (let stats = \<lparr> UserStats.id = uuid,
                     UserStats.userId = orNull (InsertUserStats.userId ins),
                     totalPrayers = orZero (InsertUserStats.totalPrayers ins),
                     onTimePrayers = orZero (InsertUserStats.onTimePrayers ins),
                     qazaPrayers = orZero (InsertUserStats.qazaPrayers ins),
                     currentStreak = orZero (InsertUserStats.currentStreak ins),
                     bestStreak = orZero (InsertUserStats.bestStreak ins),
                     perfectWeeks = orZero (InsertUserStats.perfectWeeks ins),
                     lastStreakUpdate = InsertUserStats.lastStreakUpdate ins,
                     updatedAt = now \<rparr>
      in (stats, s\<lparr> userStats := AList.update (UserStats.userId stats) stats (userStats s) \<rparr>))"

definition merge :: "'a \<Rightarrow> 'a option \<Rightarrow> 'a" where
  \<comment> \<open>one field of \<^verbatim>\<open>{...existing, ...updates}\<close>\<close>
  "merge old new = (case new of None \<Rightarrow> old | Some v \<Rightarrow> v)"

datatype Error = Error string | ZodError

definition updateUserStats :: "MemStorage \<Rightarrow> string \<Rightarrow> InsertUserStats \<Rightarrow> nat \<Rightarrow> Error + UserStats \<times> MemStorage" where
  "updateUserStats s user updates now =
     (case map_of (userStats s) (Some user) of
        None \<Rightarrow> Inl (Error ''User stats not found'')
      | Some existing \<Rightarrow>
          (let updated =
                 existing\<lparr> UserStats.userId := (case InsertUserStats.userId updates of
                                                    None \<Rightarrow> UserStats.userId existing
                                                  | Some v \<Rightarrow> Some v),
                           totalPrayers := merge (totalPrayers existing) (InsertUserStats.totalPrayers updates),
                           onTimePrayers := merge (onTimePrayers existing) (InsertUserStats.onTimePrayers updates),
                           qazaPrayers := merge (qazaPrayers existing) (InsertUserStats.qazaPrayers updates),
                           currentStreak := merge (currentStreak existing) (InsertUserStats.currentStreak updates),
                           bestStreak := merge (bestStreak existing) (InsertUserStats.bestStreak updates),
                           perfectWeeks := merge (perfectWeeks existing) (InsertUserStats.perfectWeeks updates),
                           lastStreakUpdate := (case InsertUserStats.lastStreakUpdate updates of
                                                  None \<Rightarrow> lastStreakUpdate existing
                                                | Some v \<Rightarrow> Some v),
                           updatedAt := now \<rparr>
           in Inr (updated, s\<lparr> userStats := AList.update (Some user) updated (userStats s) \<rparr>)))"

section \<open>The database store (server/storage.ts, class DatabaseStorage)\<close>

text \<open>
  \<^verbatim>\<open>DatabaseStorage.createAchievement\<close> on the table of achievements, a list of rows. The
  query selects the rows whose three columns equal the three values (an SQL comparison with
  a null user never holds), and the insert appends a row with the identifier and the time
  the database generates.
\<close>

definition sameRow :: "InsertAchievement \<Rightarrow> Achievement \<Rightarrow> bool" where
  "sameRow ins a \<longleftrightarrow>
     InsertAchievement.userId ins \<noteq> None \<and>
     InsertAchievement.userId a = InsertAchievement.userId ins \<and>
     type a = type ins \<and> earnedDate a = earnedDate ins"

definition db_createAchievement ::
  "Achievement list \<Rightarrow> InsertAchievement \<Rightarrow> string \<Rightarrow> nat \<Rightarrow> Achievement \<times> Achievement list" where
  "db_createAchievement table ins uuid now =
     (case find (sameRow ins) table of
        Some existingAchievement \<Rightarrow> (existingAchievement, table)
      | None \<Rightarrow>
          (let created =
                 \<lparr> type = type ins, title = title ins, description = description ins,
                   metadata = metadata ins,
                   InsertAchievement.userId = InsertAchievement.userId ins,
                   earnedDate = earnedDate ins,
                   Achievement.id = uuid, Achievement.createdAt = now \<rparr>
           in (created, table @ [created])))"

section \<open>Request handlers (server/routes.ts)\<close>

text \<open>
  The object \<^verbatim>\<open>storage\<close> is a \<^verbatim>\<open>DatabaseStorage\<close> when a database is configured and a
  \<^verbatim>\<open>MemStorage\<close> otherwise, and a call to it can throw. The world of a request is the
  store, the lines written with \<^verbatim>\<open>console.error\<close>, the calls made so far (as a spy on
  the two functions would record them) and the number of UUIDs drawn. The parameter
  \<open>fails\<close> says which storage operations throw; an operation that does not throw
  behaves as \<^verbatim>\<open>MemStorage\<close> does. The parameter \<open>now\<close> is the clock in milliseconds.
\<close>

datatype StorageOp =
  OpGetPrayerRecords | OpUpdatePrayerRecord | OpGetUserStats | OpCreateUserStats | OpUpdateUserStats

datatype Call = CallUpdatePrayerRecord string date | CallUpdateUserStatistics string

record World =
  storage :: MemStorage
  console :: "string list"
  calls :: "Call list"
  uuids :: nat

datatype 'a Response = Json 'a | Status nat string

definition demoUser :: string where
  "demoUser = ''demo-user''"

definition todayOf :: "nat \<Rightarrow> date" where
  \<comment> \<open>\<^verbatim>\<open>new Date().toISOString().split('T')[0]\<close>\<close>
  "todayOf now = int (now div 86400000)"

definition randomUUID :: "World \<Rightarrow> string \<times> World" where
  "randomUUID w = (''uuid-'' @ show_nat (uuids w), w\<lparr> uuids := uuids w + 1 \<rparr>)"

definition unavailable :: Error where
  "unavailable = Error ''storage unavailable''"

definition message :: "Error \<Rightarrow> string" where
  "message e = (case e of Error m \<Rightarrow> m | ZodError \<Rightarrow> ''validation failed'')"

definition storage_updatePrayerRecord ::
  "(StorageOp \<Rightarrow> bool) \<Rightarrow> nat \<Rightarrow> World \<Rightarrow> string \<Rightarrow> date \<Rightarrow> DailyPrayers
     \<Rightarrow> (Error + PrayerRecord) \<times> World" where
  "storage_updatePrayerRecord fails now w user d p =
     (let w1 = w\<lparr> calls := calls w @ [CallUpdatePrayerRecord user d] \<rparr>
      in if fails OpUpdatePrayerRecord then (Inl unavailable, w1)
         else (case randomUUID w1 of
                 (uuid, w2) \<Rightarrow>
                   (case updatePrayerRecord (storage w2) user d (Some p) uuid now of
                      (record, s) \<Rightarrow> (Inr record, w2\<lparr> storage := s \<rparr>))))"

fun batchUpdatePrayerRecords ::
  "(StorageOp \<Rightarrow> bool) \<Rightarrow> nat \<Rightarrow> World \<Rightarrow> string \<Rightarrow> (date \<times> DailyPrayers) list
     \<Rightarrow> (Error + PrayerRecord list) \<times> World" where
  "batchUpdatePrayerRecords fails now w user [] = (Inr [], w)"
| "batchUpdatePrayerRecords fails now w user (update # rest) =
     (case storage_updatePrayerRecord fails now w user (fst update) (snd update) of
        (Inl e, w1) \<Rightarrow> (Inl e, w1)
      | (Inr record, w1) \<Rightarrow>
          (case batchUpdatePrayerRecords fails now w1 user rest of
             (Inl e, w2) \<Rightarrow> (Inl e, w2)
           | (Inr updatedRecords, w2) \<Rightarrow> (Inr (record # updatedRecords), w2)))"

definition logFailure :: "World \<Rightarrow> Error \<Rightarrow> World" where
  \<comment> \<open>the \<^verbatim>\<open>catch\<close> block of \<^verbatim>\<open>updateUserStatistics\<close>\<close>
  "logFailure w e = w\<lparr> console := console w @ [''Failed to update user statistics: '' @ message e] \<rparr>"

definition updateUserStatistics :: "(StorageOp \<Rightarrow> bool) \<Rightarrow> nat \<Rightarrow> World \<Rightarrow> string \<Rightarrow> World" where
  "updateUserStatistics fails now w user =
     (let w0 = w\<lparr> calls := calls w @ [CallUpdateUserStatistics user] \<rparr>
      in if fails OpGetPrayerRecords then logFailure w0 unavailable
         else
           (let allRecords = getPrayerRecords (storage w0) user None None;
                stats = computeStatistics user (todayOf now) allRecords
            in if fails OpGetUserStats then logFailure w0 unavailable
               else (case getUserStats (storage w0) user of
                       Some existingStats \<Rightarrow>
                         (if fails OpUpdateUserStats then logFailure w0 unavailable
                          else (case updateUserStats (storage w0) user
                                       (stats\<lparr> InsertUserStats.userId := None \<rparr>) now of
                                  Inl e \<Rightarrow> logFailure w0 e
                                | Inr (updated, s) \<Rightarrow> w0\<lparr> storage := s \<rparr>))
                     | None \<Rightarrow>
                         (if fails OpCreateUserStats then logFailure w0 unavailable
                          else (case randomUUID w0 of
                                  (uuid, w1) \<Rightarrow>
                                    (case createUserStats (storage w1) stats uuid now of
                                       (created, s) \<Rightarrow> w1\<lparr> storage := s \<rparr>))))))"

text \<open>
  \<^verbatim>\<open>POST /api/prayers\<close>. The body is \<open>None\<close> when \<^verbatim>\<open>insertPrayerRecordSchema.parse\<close>
  throws. The user is the demo user the middleware puts on every request.
\<close>

definition post_prayers ::
  "(StorageOp \<Rightarrow> bool) \<Rightarrow> nat \<Rightarrow> World \<Rightarrow> (date \<times> DailyPrayers) option
     \<Rightarrow> PrayerRecord Response \<times> World" where
  "post_prayers fails now w body =
     (case body of
        None \<Rightarrow> (Status 400 ''Invalid prayer record data'', w)
      | Some validatedData \<Rightarrow>
          (case storage_updatePrayerRecord fails now w demoUser
                  (fst validatedData) (snd validatedData) of
             (Inl e, w1) \<Rightarrow> (Status 400 (message e), w1)
           | (Inr record, w1) \<Rightarrow> (Json record, updateUserStatistics fails now w1 demoUser)))"

text \<open>
  \<^verbatim>\<open>POST /api/prayers/batch\<close>. \<^verbatim>\<open>batchUpdatePrayersSchema\<close> wants between one and seven
  updates.
\<close>

definition post_prayers_batch ::
  "(StorageOp \<Rightarrow> bool) \<Rightarrow> nat \<Rightarrow> World \<Rightarrow> (date \<times> DailyPrayers) list
     \<Rightarrow> PrayerRecord list Response \<times> World" where
  "post_prayers_batch fails now w updates =
     (if length updates < 1 \<or> length updates > 7
      then (Status 400 ''Invalid batch update data'', w)
      else (case batchUpdatePrayerRecords fails now w demoUser updates of
              (Inl e, w1) \<Rightarrow> (Status 400 (message e), w1)
            | (Inr updatedRecords, w1) \<Rightarrow>
                (Json updatedRecords, updateUserStatistics fails now w1 demoUser)))"

section \<open>Period analytics (client/src/lib/prayer-utils.ts)\<close>

datatype Period = Week | Month | Year

record DateRange =
  startDate :: "date option"
  endDate :: "date option"
  dates :: "date list"



record PeriodSummary =
  totalPrayers :: int
  totalPossible :: int
  successRate :: int
  qazaPrayers :: int
  onTimePrayers :: int
  period :: Period




section \<open>Single-prayer streak rules (client/src/lib/prayer-utils.ts)\<close>

text \<open>
  \<open>lookup\<close> is \<^verbatim>\<open>apiService.getPrayerRecord\<close>: the record of a date, null, or an error
  it rethrows. The loop of \<^verbatim>\<open>checkConsecutivePrayerCompletion\<close> runs over the offsets
  \<open>0\<close> to \<open>targetDays + 9\<close>.
\<close>

fun consecutiveLoop ::
  "(date \<Rightarrow> Error + PrayerRecord option) \<Rightarrow> PrayerType \<Rightarrow> date \<Rightarrow> nat list \<Rightarrow> int \<Rightarrow> Error + int" where
  "consecutiveLoop lookup prayerType today [] consecutiveDays = Inr consecutiveDays"
| "consecutiveLoop lookup prayerType today (i # rest) consecutiveDays =
     (case lookup (today - int i) of
        Inl e \<Rightarrow> Inl e
      | Inr None \<Rightarrow> Inr consecutiveDays
      | Inr (Some record) \<Rightarrow>
          (case prayers record of
             None \<Rightarrow> Inr consecutiveDays
           | Some dayPrayers \<Rightarrow>
               if completed (slot prayerType dayPrayers)
               then consecutiveLoop lookup prayerType today rest (consecutiveDays + 1)
               else Inr consecutiveDays))"

definition checkConsecutivePrayerCompletion ::
  "(date \<Rightarrow> Error + PrayerRecord option) \<Rightarrow> date \<Rightarrow> PrayerType \<Rightarrow> nat \<Rightarrow> int" where
  "checkConsecutivePrayerCompletion lookup today prayerType targetDays =
     (case consecutiveLoop lookup prayerType today [0..<targetDays + 10] 0 of
        Inl e \<Rightarrow> 0
      | Inr consecutiveDays \<Rightarrow> consecutiveDays)"

definition slotMilestones :: "nat list" where
  "slotMilestones = [3, 7, 15, 30, 60, 100]"

definition earlyBirdTitle :: "nat \<Rightarrow> string \<times> string" where
  "earlyBirdTitle milestone =
     (if milestone = 3 then (''Early Starter'', ''3 consecutive days of Fajr prayers!'')
      else if milestone = 7 then (''Dawn Devotee'', ''1 week of consistent Fajr prayers!'')
      else if milestone = 15 then (''Morning Master'', ''15 days of Fajr dedication!'')
      else if milestone = 30 then (''Fajr Champion'', ''30 days of early morning devotion!'')
      else if milestone = 60 then (''Early Bird Legend'', ''60 days of Fajr consistency!'')
      else if milestone = 100 then (''Dawn Guardian'', ''100 days of Fajr mastery!'')
      else (''Early Bird '' @ show_nat milestone,
            show_nat milestone @ '' consecutive Fajr prayers!''))"

definition nightOwlTitle :: "nat \<Rightarrow> string \<times> string" where
  "nightOwlTitle milestone =
     (if milestone = 3 then (''Night Starter'', ''3 consecutive nights of Isha prayers!'')
      else if milestone = 7 then (''Evening Devotee'', ''1 week of consistent Isha prayers!'')
      else if milestone = 15 then (''Night Master'', ''15 nights of Isha dedication!'')
      else if milestone = 30 then (''Isha Champion'', ''30 nights of evening devotion!'')
      else if milestone = 60 then (''Night Owl Legend'', ''60 nights of Isha consistency!'')
      else if milestone = 100 then (''Night Guardian'', ''100 nights of Isha mastery!'')
      else (''Night Owl '' @ show_nat milestone,
            show_nat milestone @ '' consecutive Isha prayers!''))"

definition goldenHourTitle :: "nat \<Rightarrow> string \<times> string" where
  "goldenHourTitle milestone =
     (if milestone = 3 then (''Sunset Starter'', ''3 consecutive days of Maghrib prayers!'')
      else if milestone = 7 then (''Golden Devotee'', ''1 week of consistent Maghrib prayers!'')
      else if milestone = 15 then (''Sunset Master'', ''15 days of Maghrib dedication!'')
      else if milestone = 30 then (''Maghrib Champion'', ''30 days of golden hour devotion!'')
      else if milestone = 60 then (''Golden Hour Legend'', ''60 days of Maghrib consistency!'')
      else if milestone = 100 then (''Sunset Guardian'', ''100 days of Maghrib mastery!'')
      else (''Golden Hour '' @ show_nat milestone,
            show_nat milestone @ '' consecutive Maghrib prayers!''))"

text \<open>
  The three rule functions are the same loop over the milestones, on a different prayer,
  with a different type tag and different titles. The test is
  \<^verbatim>\<open>consecutiveDays >= milestone\<close> and the \<^verbatim>\<open>break\<close> follows the first push.
\<close>

fun slotMilestoneLoop ::
  "(date \<Rightarrow> Error + PrayerRecord option) \<Rightarrow> date \<Rightarrow> PrayerType \<Rightarrow> string \<Rightarrow> string
     \<Rightarrow> (nat \<Rightarrow> string \<times> string) \<Rightarrow> nat list \<Rightarrow> AchievementDescriptor list" where
  "slotMilestoneLoop lookup today prayerType tag name titles [] = []"
| "slotMilestoneLoop lookup today prayerType tag name titles (milestone # rest) =
     (if checkConsecutivePrayerCompletion lookup today prayerType milestone \<ge> int milestone
      then [\<lparr> type = tag,
              title = fst (titles milestone),
              description = snd (titles milestone),
              metadata = Some [(''consecutiveDays'', JNum (int milestone)),
                               (''prayerType'', JStr name),
                               (''earnedDate'', JDate today)] \<rparr>]
      else slotMilestoneLoop lookup today prayerType tag name titles rest)"

definition checkEarlyBirdAchievements ::
  "(date \<Rightarrow> Error + PrayerRecord option) \<Rightarrow> date \<Rightarrow> AchievementDescriptor list" where
  "checkEarlyBirdAchievements lookup today =
     slotMilestoneLoop lookup today Fajr ''early_bird'' ''fajr'' earlyBirdTitle slotMilestones"

definition checkNightOwlAchievements ::
  "(date \<Rightarrow> Error + PrayerRecord option) \<Rightarrow> date \<Rightarrow> AchievementDescriptor list" where
  "checkNightOwlAchievements lookup today =
     slotMilestoneLoop lookup today Isha ''night_owl'' ''isha'' nightOwlTitle slotMilestones"

definition checkGoldenHourAchievements ::
  "(date \<Rightarrow> Error + PrayerRecord option) \<Rightarrow> date \<Rightarrow> AchievementDescriptor list" where
  "checkGoldenHourAchievements lookup today =
     slotMilestoneLoop lookup today Maghrib ''golden_hour'' ''maghrib'' goldenHourTitle slotMilestones"

section \<open>Notions used in the statements\<close>

subsection \<open>The slots of a record\<close>

definition completedCount :: "PrayerRecord \<Rightarrow> int" where
  "completedCount r =
     (case prayers r of None \<Rightarrow> 0
      | Some p \<Rightarrow> int (length (filter completed (Object_values p))))"

definition onTimeCount :: "PrayerRecord \<Rightarrow> int" where
  "onTimeCount r =
     (case prayers r of None \<Rightarrow> 0
      | Some p \<Rightarrow> int (length (filter (\<lambda>s. completed s \<and> onTime s) (Object_values p))))"

definition missedCount :: "PrayerRecord \<Rightarrow> int" where
  "missedCount r =
     (case prayers r of None \<Rightarrow> 0
      | Some p \<Rightarrow> int (length (filter (\<lambda>s. \<not> completed s) (Object_values p))))"




subsection \<open>The states of the stores\<close>

definition keyOf :: "Achievement \<Rightarrow> string option \<times> string \<times> date" where
  "keyOf a = (InsertAchievement.userId a, type a, earnedDate a)"

definition insertKey :: "InsertAchievement \<Rightarrow> string option \<times> string \<times> date" where
  \<comment> \<open>the key under which \<^verbatim>\<open>MemStorage\<close> files a new achievement\<close>
  "insertKey ins = (Some (orDemoUser (InsertAchievement.userId ins)), type ins, earnedDate ins)"

definition rowKey :: "InsertAchievement \<Rightarrow> string option \<times> string \<times> date" where
  "rowKey ins = (InsertAchievement.userId ins, type ins, earnedDate ins)"

definition hasUser :: "Achievement \<Rightarrow> bool" where
  "hasUser a \<longleftrightarrow> InsertAchievement.userId a \<noteq> None"

definition newAchievement :: "InsertAchievement \<Rightarrow> string \<Rightarrow> nat \<Rightarrow> Achievement" where
  "newAchievement ins uuid now =
     \<lparr> type = type ins, title = title ins, description = description ins,
       metadata = metadata ins,
       InsertAchievement.userId = Some (orDemoUser (InsertAchievement.userId ins)),
       earnedDate = earnedDate ins,
       Achievement.id = uuid, Achievement.createdAt = now \<rparr>"

definition newRow :: "InsertAchievement \<Rightarrow> string \<Rightarrow> nat \<Rightarrow> Achievement" where
  "newRow ins uuid now =
     \<lparr> type = type ins, title = title ins, description = description ins,
       metadata = metadata ins,
       InsertAchievement.userId = InsertAchievement.userId ins,
       earnedDate = earnedDate ins,
       Achievement.id = uuid, Achievement.createdAt = now \<rparr>"

text \<open>
  The states of the store: the empty one and what its operations make of a state. The
  prayers a caller passes are an object of the five slots, never null.
\<close>

inductive reachable :: "MemStorage \<Rightarrow> bool" where
  r_empty: "reachable emptyStorage"
| r_createAchievement: "reachable s \<Longrightarrow> reachable (snd (createAchievement s ins uuid now))"
| r_createPrayerRecord:
    "reachable s \<Longrightarrow> reachable (snd (createPrayerRecord s user d (Some p) uuid now))"
| r_updatePrayerRecord:
    "reachable s \<Longrightarrow> reachable (snd (updatePrayerRecord s u d (Some p) uuid now))"
| r_createUserStats: "reachable s \<Longrightarrow> reachable (snd (createUserStats s stats uuid now))"
| r_updateUserStats:
    "reachable s \<Longrightarrow> updateUserStats s u updates now = Inr (st, s') \<Longrightarrow> reachable s'"

inductive db_reachable :: "Achievement list \<Rightarrow> bool" where
  d_empty: "db_reachable []"
| d_createAchievement:
    "db_reachable table \<Longrightarrow> db_reachable (snd (db_createAchievement table ins uuid now))"

definition recordsKeyed :: "MemStorage \<Rightarrow> bool" where
  \<comment> \<open>every prayer record sits under its own user and date, and has its prayers\<close>
  "recordsKeyed s \<longleftrightarrow>
     distinct (map fst (prayerRecords s)) \<and>
     list_all (\<lambda>e. PrayerRecord.userId (snd e) = Some (fst (fst e)) \<and>
                   date (snd e) = snd (fst e) \<and> prayers (snd e) \<noteq> None)
       (prayerRecords s)"

subsection \<open>The streak and the perfect weeks of the specification\<close>

text \<open>
  The current streak in the words of the specification: walking from the most recent
  record backward, a day counts when all its five slots are completed and it is one day
  before the day counted last; the first day that does not count ends the walk.
\<close>

fun specStreak :: "date option \<Rightarrow> PrayerRecord list \<Rightarrow> int" where
  "specStreak previous [] = 0"
| "specStreak previous (r # rs) =
     (if (case prayers r of None \<Rightarrow> False | Some p \<Rightarrow> list_all completed (Object_values p)) \<and>
         (case previous of None \<Rightarrow> True | Some prev \<Rightarrow> prev - date r = 1)
      then 1 + specStreak (Some (date r)) rs
      else 0)"







subsection \<open>The descriptor of a single-prayer rule\<close>

definition slotDescriptor ::
  "date \<Rightarrow> string \<Rightarrow> string \<Rightarrow> (nat \<Rightarrow> string \<times> string) \<Rightarrow> nat \<Rightarrow> AchievementDescriptor" where
  "slotDescriptor today tag name titles milestone =
     \<lparr> type = tag,
       title = fst (titles milestone),
       description = snd (titles milestone),
       metadata = Some [(''consecutiveDays'', JNum (int milestone)),
                        (''prayerType'', JStr name),
                        (''earnedDate'', JDate today)] \<rparr>"

subsection \<open>Example data\<close>

definition status :: "bool \<Rightarrow> PrayerStatus" where
  "status b = \<lparr> completed = b, onTime = b, completedAt = None \<rparr>"

definition allDone :: DailyPrayers where
  "allDone = \<lparr> fajr = status True, dhuhr = status True, asr = status True,
               maghrib = status True, isha = status True \<rparr>"

definition fajrOnly :: DailyPrayers where
  "fajrOnly = \<lparr> fajr = status True, dhuhr = status False, asr = status False,
                maghrib = status False, isha = status False \<rparr>"

definition recordOn :: "string \<Rightarrow> date \<Rightarrow> DailyPrayers \<Rightarrow> PrayerRecord" where
  "recordOn user d p =
     \<lparr> PrayerRecord.id = [], PrayerRecord.userId = Some user, date = d, prayers = Some p,
       PrayerRecord.createdAt = 0, PrayerRecord.updatedAt = 0 \<rparr>"

definition emptyWorld :: World where
  "emptyWorld = \<lparr> storage = emptyStorage, console = [], calls = [], uuids = 0 \<rparr>"

definition perfectDay :: "string option \<Rightarrow> date \<Rightarrow> InsertAchievement" where
  "perfectDay user d =
     \<lparr> type = ''perfect_day'', title = ''Perfect Day'',
       description = ''All 5 prayers completed today!'', metadata = None,
       InsertAchievement.userId = user, earnedDate = d \<rparr>"

definition fajrStreak :: "nat \<Rightarrow> date \<Rightarrow> date \<Rightarrow> Error + PrayerRecord option" where
  \<comment> \<open>a store in which Fajr alone is completed on each of the last \<open>n\<close> days up to today,
      and no other day has a record\<close>
  "fajrStreak n today d =
     (if today - int n < d \<and> d \<le> today
      then Inr (Some (recordOn ''demo-user'' d fajrOnly))
      else Inr None)"

definition gapExample :: "PrayerRecord list" where
  \<comment> \<open>2024-01-01, 01-02, 01-03 and 01-05, all complete; no record for 01-04\<close>
  "gapExample =
     [recordOn ''demo-user'' (days_from_civil 2024 1 1) allDone,
      recordOn ''demo-user'' (days_from_civil 2024 1 2) allDone,
      recordOn ''demo-user'' (days_from_civil 2024 1 3) allDone,
      recordOn ''demo-user'' (days_from_civil 2024 1 5) allDone]"


section \<open>Milestone rules: exact equality\<close>

lemma checkStreakLoop_eq:
  "checkStreakLoop today c ms = (if c \<in> set ms then [streakDescriptor today c] else [])"
  by (induction ms) auto

lemma checkPrayerLoop_eq:
  "checkPrayerLoop today n ms = (if n \<in> set ms then [prayerDescriptor today n] else [])"
  by (induction ms) auto

lemma checkStreakAchievements_eq:
  "checkStreakAchievements today c =
     (if c \<in> {7, 30, 50, 100, 200, 365} then [streakDescriptor today c] else [])"
  by (simp add: checkStreakAchievements_def checkStreakLoop_eq streakMilestones_def)

lemma checkPrayerMilestones_eq:
  "checkPrayerMilestones today n =
     (if n \<in> {50, 100, 250, 500, 1000, 2500, 5000} then [prayerDescriptor today n] else [])"
  by (simp add: checkPrayerMilestones_def checkPrayerLoop_eq prayerMilestones_def)

text \<open>
  Claim C6. A \<^verbatim>\<open>streak_milestone\<close> descriptor is returned exactly when the current streak
  equals one of 7, 30, 50, 100, 200, 365, and a \<^verbatim>\<open>prayer_milestone\<close> descriptor exactly when
  the lifetime total equals one of 50, 100, 250, 500, 1000, 2500, 5000; each call returns at
  most one descriptor of its family, carrying the matched number. A total of 100 gives the
  one descriptor "Prayer Enthusiast", and every total strictly between 100 and 250 gives
  none.
\<close>

theorem C6_milestones_exact:
  "(checkStreakAchievements today c \<noteq> [] \<longleftrightarrow> c \<in> {7, 30, 50, 100, 200, 365}) \<and>
   (checkPrayerMilestones today n \<noteq> [] \<longleftrightarrow> n \<in> {50, 100, 250, 500, 1000, 2500, 5000}) \<and>
   length (checkStreakAchievements today c) \<le> 1 \<and>
   length (checkPrayerMilestones today n) \<le> 1 \<and>
   (\<forall>a \<in> set (checkStreakAchievements today c).
      type a = ''streak_milestone'' \<and>
      metadata a = Some [(''streakDays'', JNum c), (''earnedDate'', JDate today)]) \<and>
   (\<forall>a \<in> set (checkPrayerMilestones today n).
      type a = ''prayer_milestone'' \<and>
      metadata a = Some [(''totalPrayers'', JNum n), (''earnedDate'', JDate today)]) \<and>
   checkPrayerMilestones today 100 =
     [\<lparr> type = ''prayer_milestone'', title = ''Prayer Enthusiast'',
        description = ''100 prayers completed!'',
        metadata = Some [(''totalPrayers'', JNum 100), (''earnedDate'', JDate today)] \<rparr>] \<and>
   (\<forall>k. 100 < k \<and> k < 250 \<longrightarrow> checkPrayerMilestones today k = [])"
proof -
  have s: "checkStreakAchievements today c \<noteq> [] \<longleftrightarrow> c \<in> {7, 30, 50, 100, 200, 365}"
    by (simp add: checkStreakAchievements_eq)
  have p: "checkPrayerMilestones today n \<noteq> [] \<longleftrightarrow> n \<in> {50, 100, 250, 500, 1000, 2500, 5000}"
    by (simp add: checkPrayerMilestones_eq)
  have ls: "length (checkStreakAchievements today c) \<le> 1"
    by (simp add: checkStreakAchievements_eq)
  have lp: "length (checkPrayerMilestones today n) \<le> 1"
    by (simp add: checkPrayerMilestones_eq)
  have ms: "\<forall>a \<in> set (checkStreakAchievements today c).
      type a = ''streak_milestone'' \<and>
      metadata a = Some [(''streakDays'', JNum c), (''earnedDate'', JDate today)]"
    by (simp add: checkStreakAchievements_eq streakDescriptor_def)
  have mp: "\<forall>a \<in> set (checkPrayerMilestones today n).
      type a = ''prayer_milestone'' \<and>
      metadata a = Some [(''totalPrayers'', JNum n), (''earnedDate'', JDate today)]"
    by (simp add: checkPrayerMilestones_eq prayerDescriptor_def)
  have h: "checkPrayerMilestones today 100 =
     [\<lparr> type = ''prayer_milestone'', title = ''Prayer Enthusiast'',
        description = ''100 prayers completed!'',
        metadata = Some [(''totalPrayers'', JNum 100), (''earnedDate'', JDate today)] \<rparr>]"
    by (simp add: checkPrayerMilestones_eq prayerDescriptor_def prayerTitle_def)
  have g: "\<forall>k. 100 < k \<and> k < 250 \<longrightarrow> checkPrayerMilestones today k = []"
    by (auto simp add: checkPrayerMilestones_eq)
  from s p ls lp ms mp h g show ?thesis by blast
qed

theorem C6_milestones_exact_witness:
  "length (checkStreakAchievements 19723 30) = 1 \<and>
   checkStreakAchievements 19723 31 = [] \<and>
   checkPrayerMilestones 19723 101 = [] \<and>
   checkPrayerMilestones 19723 249 = [] \<and>
   map metadata (checkPrayerMilestones 19723 250)
     = [Some [(''totalPrayers'', JNum 250), (''earnedDate'', JDate 19723)]]"
proof -
  note t = C6_milestones_exact [of 19723 30 250]
  note u = C6_milestones_exact [of 19723 31 101]
  have a: "checkStreakAchievements 19723 30 \<noteq> []" using t by simp
  have b: "length (checkStreakAchievements 19723 30) \<le> 1" using t by blast
  have c: "checkStreakAchievements 19723 31 = []" using u by simp
  have d: "checkPrayerMilestones 19723 101 = []" using u by simp
  have e: "checkPrayerMilestones 19723 249 = []" using t by simp
  have f: "checkPrayerMilestones 19723 250 \<noteq> []" using t by simp
  have g: "length (checkPrayerMilestones 19723 250) \<le> 1" using t by blast
  have h: "\<forall>a \<in> set (checkPrayerMilestones 19723 250).
      metadata a = Some [(''totalPrayers'', JNum 250), (''earnedDate'', JDate 19723)]"
    using t by blast
  from a b have l: "length (checkStreakAchievements 19723 30) = 1"
    by (cases "checkStreakAchievements 19723 30") auto
  from f g h have m: "map metadata (checkPrayerMilestones 19723 250)
      = [Some [(''totalPrayers'', JNum 250), (''earnedDate'', JDate 19723)]]"
    by (cases "checkPrayerMilestones 19723 250") auto
  from l c d e m show ?thesis by blast
qed

section \<open>Lifetime counters\<close>

lemma countPrayer_foldl:
  "foldl countPrayer (t, ot, q) ps =
     (t + int (length (filter completed ps)),
      ot + int (length (filter (\<lambda>s. completed s \<and> onTime s) ps)),
      q + int (length (filter (\<lambda>s. \<not> completed s) ps)))"
  by (induction ps arbitrary: t ot q) auto

lemma historyStep_counts:
  "historyStep (t, ot, q, ts, b) r = (t', ot', q', ts', b') \<Longrightarrow>
     t' = t + completedCount r \<and> ot' = ot + onTimeCount r \<and> q' = q + missedCount r"
  by (auto simp: completedCount_def onTimeCount_def missedCount_def countPrayer_foldl
           split: option.splits if_splits)

lemma historyOf_foldl_counts:
  "foldl historyStep (t, ot, q, ts, b) rs = (t', ot', q', ts', b') \<Longrightarrow>
     t' = t + sum_list (map completedCount rs) \<and>
     ot' = ot + sum_list (map onTimeCount rs) \<and>
     q' = q + sum_list (map missedCount rs)"
proof (induction rs arbitrary: t ot q ts b)
  case Nil
  then show ?case by simp
next
  case (Cons r rs)
  obtain t1 ot1 q1 ts1 b1 where s: "historyStep (t, ot, q, ts, b) r = (t1, ot1, q1, ts1, b1)"
    by (metis prod_cases5)
  from historyStep_counts [OF s] Cons.IH [of t1 ot1 q1 ts1 b1] Cons.prems s
  show ?case by simp
qed

lemma sum_list_sort_key:
  "sum_list (map f (sort_key k xs)) = sum_list (map (f :: 'a \<Rightarrow> int) xs)"
proof -
  have "mset (map f (sort_key k xs)) = mset (map f xs)" by simp
  then show ?thesis by (metis sum_mset_sum_list)
qed

lemma record_slots:
  "prayers r \<noteq> None \<Longrightarrow> completedCount r + missedCount r = 5"
  by (auto simp: completedCount_def missedCount_def Object_values_def)

lemma onTime_le_completed: "onTimeCount r \<le> completedCount r"
  by (auto simp: completedCount_def onTimeCount_def Object_values_def split: option.splits)

lemma sum_slots:
  "\<forall>r \<in> set rs. prayers r \<noteq> None \<Longrightarrow>
     sum_list (map completedCount rs) + sum_list (map missedCount rs) = 5 * int (length rs)"
proof (induction rs)
  case Nil
  then show ?case by simp
next
  case (Cons r rs)
  then have "completedCount r + missedCount r = 5" by (simp add: record_slots)
  moreover from Cons have "sum_list (map completedCount rs) + sum_list (map missedCount rs)
      = 5 * int (length rs)" by simp
  ultimately show ?case by simp
qed

lemma sum_onTime_le:
  "sum_list (map onTimeCount rs) \<le> sum_list (map completedCount rs)"
  by (induction rs) (auto intro: add_mono onTime_le_completed)

lemma computeStatistics_counts:
  "InsertUserStats.totalPrayers (computeStatistics user today rs) = Some (sum_list (map completedCount rs)) \<and>
   InsertUserStats.onTimePrayers (computeStatistics user today rs) = Some (sum_list (map onTimeCount rs)) \<and>
   InsertUserStats.qazaPrayers (computeStatistics user today rs) = Some (sum_list (map missedCount rs))"
proof -
  obtain t ot q ts b where h: "historyOf (sortAscending (sortDescending rs)) = (t, ot, q, ts, b)"
    by (metis prod_cases5)
  from historyOf_foldl_counts [OF h [unfolded historyOf_def]]
  have "t = sum_list (map completedCount rs) \<and> ot = sum_list (map onTimeCount rs) \<and>
        q = sum_list (map missedCount rs)"
    by (simp add: sortAscending_def sortDescending_def sum_list_sort_key)
  with h show ?thesis by (simp add: computeStatistics_def Let_def)
qed

text \<open>
  Claim C10. When every record has its prayers object, the recomputed \<^verbatim>\<open>totalPrayers\<close>
  and \<^verbatim>\<open>qazaPrayers\<close> add up to five times the number of records, \<^verbatim>\<open>onTimePrayers\<close>
  is at most \<^verbatim>\<open>totalPrayers\<close>, and each of the three counters is a sum over the records
  alone, so that a day without a record adds nothing to any of them.
\<close>

theorem C10_lifetime_counters:
  assumes "\<forall>r \<in> set rs. prayers r \<noteq> None"
  shows "\<exists>t ot q.
           InsertUserStats.totalPrayers (computeStatistics user today rs) = Some t \<and>
           InsertUserStats.onTimePrayers (computeStatistics user today rs) = Some ot \<and>
           InsertUserStats.qazaPrayers (computeStatistics user today rs) = Some q \<and>
           t + q = 5 * int (length rs) \<and> ot \<le> t \<and>
           t = sum_list (map completedCount rs) \<and>
           ot = sum_list (map onTimeCount rs) \<and>
           q = sum_list (map missedCount rs)"
  using computeStatistics_counts [of user today rs] sum_slots [OF assms] sum_onTime_le [of rs]
  by simp

theorem C10_lifetime_counters_witness:
  "list_all (\<lambda>r. prayers r \<noteq> None)
     [recordOn ''u'' 19723 allDone, recordOn ''u'' 19730 fajrOnly] \<and>
   InsertUserStats.totalPrayers
     (computeStatistics ''u'' 19731 [recordOn ''u'' 19723 allDone, recordOn ''u'' 19730 fajrOnly]) = Some 6 \<and>
   InsertUserStats.qazaPrayers
     (computeStatistics ''u'' 19731 [recordOn ''u'' 19723 allDone, recordOn ''u'' 19730 fajrOnly]) = Some 4"
proof -
  let ?rs = "[recordOn ''u'' 19723 allDone, recordOn ''u'' 19730 fajrOnly]"
  have p: "\<forall>r \<in> set ?rs. prayers r \<noteq> None" by (simp add: recordOn_def)
  have c: "sum_list (map completedCount ?rs) = 6"
    by (simp add: completedCount_def recordOn_def allDone_def fajrOnly_def status_def Object_values_def)
  from C10_lifetime_counters [OF p, of "''u''" 19731] c p show ?thesis
    by (auto simp: list_all_iff)
qed

section \<open>The recomputation writes what it computed\<close>

lemma computeStatistics_Some:
  "\<exists>t ot q c b pw.
     InsertUserStats.totalPrayers (computeStatistics user today rs) = Some t \<and>
     InsertUserStats.onTimePrayers (computeStatistics user today rs) = Some ot \<and>
     InsertUserStats.qazaPrayers (computeStatistics user today rs) = Some q \<and>
     InsertUserStats.currentStreak (computeStatistics user today rs) = Some c \<and>
     InsertUserStats.bestStreak (computeStatistics user today rs) = Some b \<and>
     InsertUserStats.perfectWeeks (computeStatistics user today rs) = Some pw \<and>
     InsertUserStats.userId (computeStatistics user today rs) = Some user \<and> c \<le> b"
  by (cases "historyOf (sortAscending (sortDescending rs))")
     (simp add: computeStatistics_def Let_def)

lemma updateUserStats_found:
  assumes "map_of (userStats s) (Some user) = Some existing"
  shows "\<exists>upd s'. updateUserStats s user updates now = Inr (upd, s') \<and>
     map_of (userStats s') (Some user) = Some upd \<and>
     prayerRecords s' = prayerRecords s \<and> achievements s' = achievements s \<and>
     UserStats.totalPrayers upd = merge (UserStats.totalPrayers existing) (InsertUserStats.totalPrayers updates) \<and>
     UserStats.onTimePrayers upd = merge (UserStats.onTimePrayers existing) (InsertUserStats.onTimePrayers updates) \<and>
     UserStats.qazaPrayers upd = merge (UserStats.qazaPrayers existing) (InsertUserStats.qazaPrayers updates) \<and>
     UserStats.currentStreak upd = merge (UserStats.currentStreak existing) (InsertUserStats.currentStreak updates) \<and>
     UserStats.bestStreak upd = merge (UserStats.bestStreak existing) (InsertUserStats.bestStreak updates) \<and>
     UserStats.perfectWeeks upd = merge (UserStats.perfectWeeks existing) (InsertUserStats.perfectWeeks updates)"
  using assms by (simp add: updateUserStats_def Let_def update_conv')

lemma updateUserStatistics_update_path:
  assumes "getUserStats (storage w) user = Some existing"
    and "\<not> fails OpGetPrayerRecords" and "\<not> fails OpGetUserStats" and "\<not> fails OpUpdateUserStats"
  shows "\<exists>upd s. updateUserStats (storage w) user
            ((computeStatistics user (todayOf now) (getPrayerRecords (storage w) user None None))
               \<lparr> InsertUserStats.userId := None \<rparr>) now = Inr (upd, s) \<and>
          updateUserStatistics fails now w user =
            w\<lparr> calls := calls w @ [CallUpdateUserStatistics user], storage := s \<rparr>"
proof -
  let ?cs = "(computeStatistics user (todayOf now) (getPrayerRecords (storage w) user None None))
               \<lparr> InsertUserStats.userId := None \<rparr>"
  have e: "map_of (userStats (storage w)) (Some user) = Some existing"
    using assms(1) by (simp add: getUserStats_def)
  from updateUserStats_found [OF e, of ?cs now]
  obtain upd s where u: "updateUserStats (storage w) user ?cs now = Inr (upd, s)" by blast
  have "updateUserStatistics fails now w user =
          w\<lparr> calls := calls w @ [CallUpdateUserStatistics user], storage := s \<rparr>"
    unfolding updateUserStatistics_def Let_def
    using assms u by simp
  with u show ?thesis by blast
qed

lemma createUserStats_result:
  "\<exists>st s'. createUserStats s ins uuid now = (st, s') \<and>
     map_of (userStats s') (orNull (InsertUserStats.userId ins)) = Some st \<and>
     prayerRecords s' = prayerRecords s \<and> achievements s' = achievements s \<and>
     UserStats.totalPrayers st = orZero (InsertUserStats.totalPrayers ins) \<and>
     UserStats.onTimePrayers st = orZero (InsertUserStats.onTimePrayers ins) \<and>
     UserStats.qazaPrayers st = orZero (InsertUserStats.qazaPrayers ins) \<and>
     UserStats.currentStreak st = orZero (InsertUserStats.currentStreak ins) \<and>
     UserStats.bestStreak st = orZero (InsertUserStats.bestStreak ins) \<and>
     UserStats.perfectWeeks st = orZero (InsertUserStats.perfectWeeks ins)"
  by (simp add: createUserStats_def Let_def update_conv')

lemma updateUserStatistics_create_path:
  assumes "getUserStats (storage w) user = None"
    and "\<not> fails OpGetPrayerRecords" and "\<not> fails OpGetUserStats" and "\<not> fails OpCreateUserStats"
  shows "\<exists>st s. createUserStats (storage w)
            (computeStatistics user (todayOf now) (getPrayerRecords (storage w) user None None))
            (''uuid-'' @ show_nat (uuids w)) now = (st, s) \<and>
          updateUserStatistics fails now w user =
            w\<lparr> calls := calls w @ [CallUpdateUserStatistics user], uuids := uuids w + 1, storage := s \<rparr>"
proof -
  let ?cs = "computeStatistics user (todayOf now) (getPrayerRecords (storage w) user None None)"
  obtain st s where c: "createUserStats (storage w) ?cs (''uuid-'' @ show_nat (uuids w)) now = (st, s)"
    by (cases "createUserStats (storage w) ?cs (''uuid-'' @ show_nat (uuids w)) now") blast
  have "updateUserStatistics fails now w user =
          w\<lparr> calls := calls w @ [CallUpdateUserStatistics user], uuids := uuids w + 1, storage := s \<rparr>"
    unfolding updateUserStatistics_def Let_def
    using assms c by (simp add: randomUUID_def)
  with c show ?thesis by blast
qed

lemma updateUserStatistics_frame:
  "prayerRecords (storage (updateUserStatistics fails now w user)) = prayerRecords (storage w) \<and>
   achievements (storage (updateUserStatistics fails now w user)) = achievements (storage w) \<and>
   calls (updateUserStatistics fails now w user) = calls w @ [CallUpdateUserStatistics user]"
proof (cases "fails OpGetPrayerRecords \<or> fails OpGetUserStats")
  case True
  then show ?thesis
    by (auto simp: updateUserStatistics_def Let_def logFailure_def)
next
  case nf: False
  show ?thesis
  proof (cases "getUserStats (storage w) user")
    case None
    show ?thesis
    proof (cases "fails OpCreateUserStats")
      case True
      with nf None show ?thesis
        by (simp add: updateUserStatistics_def Let_def logFailure_def)
    next
      case False
      let ?cs = "computeStatistics user (todayOf now) (getPrayerRecords (storage w) user None None)"
      from updateUserStatistics_create_path [OF None, of fails now] nf False
      obtain st s where c: "createUserStats (storage w) ?cs (''uuid-'' @ show_nat (uuids w)) now = (st, s)"
        and r: "updateUserStatistics fails now w user =
            w\<lparr> calls := calls w @ [CallUpdateUserStatistics user], uuids := uuids w + 1, storage := s \<rparr>"
        by blast
      from createUserStats_result [of "storage w" ?cs "''uuid-'' @ show_nat (uuids w)" now] c
      have "prayerRecords s = prayerRecords (storage w) \<and> achievements s = achievements (storage w)"
        by simp
      with r show ?thesis by simp
    qed
  next
    case (Some existing)
    show ?thesis
    proof (cases "fails OpUpdateUserStats")
      case True
      with nf Some show ?thesis
        by (simp add: updateUserStatistics_def Let_def logFailure_def)
    next
      case False
      let ?cs = "(computeStatistics user (todayOf now) (getPrayerRecords (storage w) user None None))
               \<lparr> InsertUserStats.userId := None \<rparr>"
      from updateUserStatistics_update_path [OF Some, of fails now] nf False
      obtain upd s where u: "updateUserStats (storage w) user ?cs now = Inr (upd, s)"
        and r: "updateUserStatistics fails now w user =
            w\<lparr> calls := calls w @ [CallUpdateUserStatistics user], storage := s \<rparr>"
        by blast
      have e: "map_of (userStats (storage w)) (Some user) = Some existing"
        using Some by (simp add: getUserStats_def)
      from updateUserStats_found [OF e, of ?cs now] u
      have "prayerRecords s = prayerRecords (storage w) \<and> achievements s = achievements (storage w)"
        by simp
      with r show ?thesis by simp
    qed
  qed
qed

lemma updateUserStatistics_persists:
  assumes "user \<noteq> []"
    and "\<not> fails OpGetPrayerRecords" and "\<not> fails OpGetUserStats"
    and "\<not> fails OpCreateUserStats" and "\<not> fails OpUpdateUserStats"
  shows "\<exists>st. getUserStats (storage (updateUserStatistics fails now w user)) user = Some st \<and>
     Some (UserStats.totalPrayers st) =
       InsertUserStats.totalPrayers (computeStatistics user (todayOf now) (getPrayerRecords (storage w) user None None)) \<and>
     Some (UserStats.onTimePrayers st) =
       InsertUserStats.onTimePrayers (computeStatistics user (todayOf now) (getPrayerRecords (storage w) user None None)) \<and>
     Some (UserStats.qazaPrayers st) =
       InsertUserStats.qazaPrayers (computeStatistics user (todayOf now) (getPrayerRecords (storage w) user None None)) \<and>
     Some (UserStats.currentStreak st) =
       InsertUserStats.currentStreak (computeStatistics user (todayOf now) (getPrayerRecords (storage w) user None None)) \<and>
     Some (UserStats.bestStreak st) =
       InsertUserStats.bestStreak (computeStatistics user (todayOf now) (getPrayerRecords (storage w) user None None)) \<and>
     Some (UserStats.perfectWeeks st) =
       InsertUserStats.perfectWeeks (computeStatistics user (todayOf now) (getPrayerRecords (storage w) user None None))"
proof -
  let ?cs = "computeStatistics user (todayOf now) (getPrayerRecords (storage w) user None None)"
  from computeStatistics_Some [of user "todayOf now" "getPrayerRecords (storage w) user None None"]
  obtain t ot q c b pw where f:
    "InsertUserStats.totalPrayers ?cs = Some t" "InsertUserStats.onTimePrayers ?cs = Some ot"
    "InsertUserStats.qazaPrayers ?cs = Some q" "InsertUserStats.currentStreak ?cs = Some c"
    "InsertUserStats.bestStreak ?cs = Some b" "InsertUserStats.perfectWeeks ?cs = Some pw"
    "InsertUserStats.userId ?cs = Some user"
    by blast
  show ?thesis
  proof (cases "getUserStats (storage w) user")
    case None
    from updateUserStatistics_create_path [OF None assms(2) assms(3) assms(4), of now]
    obtain st s where c: "createUserStats (storage w) ?cs (''uuid-'' @ show_nat (uuids w)) now = (st, s)"
      and r: "updateUserStatistics fails now w user =
          w\<lparr> calls := calls w @ [CallUpdateUserStatistics user], uuids := uuids w + 1, storage := s \<rparr>"
      by blast
    from createUserStats_result [of "storage w" ?cs "''uuid-'' @ show_nat (uuids w)" now] c f assms(1)
    have "map_of (userStats s) (Some user) = Some st \<and>
      UserStats.totalPrayers st = t \<and> UserStats.onTimePrayers st = ot \<and>
      UserStats.qazaPrayers st = q \<and> UserStats.currentStreak st = c \<and>
      UserStats.bestStreak st = b \<and> UserStats.perfectWeeks st = pw"
      by (simp add: orNull_def orZero_def)
    with r f show ?thesis by (simp add: getUserStats_def)
  next
    case (Some existing)
    let ?up = "?cs\<lparr> InsertUserStats.userId := None \<rparr>"
    from updateUserStatistics_update_path [OF Some assms(2) assms(3) assms(5), of now]
    obtain upd s where u: "updateUserStats (storage w) user ?up now = Inr (upd, s)"
      and r: "updateUserStatistics fails now w user =
          w\<lparr> calls := calls w @ [CallUpdateUserStatistics user], storage := s \<rparr>"
      by blast
    have e: "map_of (userStats (storage w)) (Some user) = Some existing"
      using Some by (simp add: getUserStats_def)
    from updateUserStats_found [OF e, of ?up now] u f
    have "map_of (userStats s) (Some user) = Some upd \<and>
      UserStats.totalPrayers upd = t \<and> UserStats.onTimePrayers upd = ot \<and>
      UserStats.qazaPrayers upd = q \<and> UserStats.currentStreak upd = c \<and>
      UserStats.bestStreak upd = b \<and> UserStats.perfectWeeks upd = pw"
      by (simp add: merge_def)
    with r f show ?thesis by (simp add: getUserStats_def)
  qed
qed

section \<open>Writes, batches and failures\<close>

lemma updatePrayerRecord_result:
  assumes "user \<noteq> []"
  shows "\<exists>rcd s'. updatePrayerRecord s user d p uuid now = (rcd, s') \<and>
     getPrayerRecord s' user d = Some rcd \<and> prayers rcd = p \<and>
     userStats s' = userStats s \<and> achievements s' = achievements s"
proof (cases "map_of (prayerRecords s) (user, d)")
  case None
  with assms show ?thesis
    by (simp add: updatePrayerRecord_def createPrayerRecord_def Let_def getPrayerRecord_def
        orDemoUser_def update_conv')
next
  case (Some existing)
  then show ?thesis
    by (simp add: updatePrayerRecord_def Let_def getPrayerRecord_def update_conv')
qed

lemma storage_updatePrayerRecord_ok:
  assumes "\<not> fails OpUpdatePrayerRecord" and "user \<noteq> []"
  shows "\<exists>rcd w'. storage_updatePrayerRecord fails now w user d p = (Inr rcd, w') \<and>
     getPrayerRecord (storage w') user d = Some rcd \<and> prayers rcd = Some p \<and>
     userStats (storage w') = userStats (storage w) \<and>
     achievements (storage w') = achievements (storage w) \<and>
     console w' = console w \<and>
     calls w' = calls w @ [CallUpdatePrayerRecord user d]"
proof -
  let ?uuid = "''uuid-'' @ show_nat (uuids w)"
  from updatePrayerRecord_result [OF assms(2), of "storage w" d "Some p" ?uuid now]
  obtain rcd s' where u: "updatePrayerRecord (storage w) user d (Some p) ?uuid now = (rcd, s')"
    and g: "getPrayerRecord s' user d = Some rcd" "prayers rcd = Some p"
      "userStats s' = userStats (storage w)" "achievements s' = achievements (storage w)"
    by blast
  have "storage_updatePrayerRecord fails now w user d p =
      (Inr rcd, w\<lparr> calls := calls w @ [CallUpdatePrayerRecord user d],
                       uuids := uuids w + 1, storage := s' \<rparr>)"
    unfolding storage_updatePrayerRecord_def Let_def
    using assms(1) u by (simp add: randomUUID_def)
  with g show ?thesis by simp
qed

lemma batchUpdatePrayerRecords_ok:
  assumes "\<not> fails OpUpdatePrayerRecord" and "user \<noteq> []"
  shows "\<exists>records w'. batchUpdatePrayerRecords fails now w user updates = (Inr records, w') \<and>
     length records = length updates \<and>
     calls w' = calls w @ map (\<lambda>u. CallUpdatePrayerRecord user (fst u)) updates"
proof (induction updates arbitrary: w)
  case Nil
  show ?case by simp
next
  case (Cons u rest)
  from assms storage_updatePrayerRecord_ok [where fails=fails and user=user and now=now and w=w and d="fst u" and p="snd u"]
  obtain rcd w1 where
    a: "storage_updatePrayerRecord fails now w user (fst u) (snd u) = (Inr rcd, w1)"
    and c: "calls w1 = calls w @ [CallUpdatePrayerRecord user (fst u)]"
    by blast
  from Cons.IH [of w1]
  obtain records w2 where
    b: "batchUpdatePrayerRecords fails now w1 user rest = (Inr records, w2)"
    and l: "length records = length rest"
    and d: "calls w2 = calls w1 @ map (\<lambda>u. CallUpdatePrayerRecord user (fst u)) rest"
    by blast
  from a b have "batchUpdatePrayerRecords fails now w user (u # rest) = (Inr (rcd # records), w2)"
    by simp
  with l c d show ?case by simp
qed

lemma demoUser_nonempty: "demoUser \<noteq> []"
  by (simp add: demoUser_def)

lemma post_prayers_batch_calls:
  assumes "1 \<le> length updates" and "length updates \<le> 7" and "\<not> fails OpUpdatePrayerRecord"
  shows "\<exists>records w'. post_prayers_batch fails now w updates = (Json records, w') \<and>
     length records = length updates \<and>
     calls w' = calls w @ map (\<lambda>u. CallUpdatePrayerRecord demoUser (fst u)) updates
                @ [CallUpdateUserStatistics demoUser]"
proof -
  from assms(3) demoUser_nonempty batchUpdatePrayerRecords_ok [where fails=fails and user=demoUser and now=now and w=w and updates=updates]
  obtain records w1 where
    b: "batchUpdatePrayerRecords fails now w demoUser updates = (Inr records, w1)"
    and l: "length records = length updates"
    and c: "calls w1 = calls w @ map (\<lambda>u. CallUpdatePrayerRecord demoUser (fst u)) updates"
    by blast
  have "post_prayers_batch fails now w updates =
          (Json records, updateUserStatistics fails now w1 demoUser)"
    unfolding post_prayers_batch_def using assms(1,2) b by auto
  moreover have "calls (updateUserStatistics fails now w1 demoUser) =
          calls w1 @ [CallUpdateUserStatistics demoUser]"
    using updateUserStatistics_frame [of fails now w1 demoUser] by simp
  ultimately show ?thesis using l c by simp
qed

lemma updateUserStatistics_failure:
  assumes "fails OpGetPrayerRecords \<or> fails OpGetUserStats \<or>
           (fails OpUpdateUserStats \<and> fails OpCreateUserStats)"
  shows "updateUserStatistics fails now w user =
           logFailure (w\<lparr> calls := calls w @ [CallUpdateUserStatistics user] \<rparr>) unavailable"
proof (cases "fails OpGetPrayerRecords \<or> fails OpGetUserStats")
  case True
  then show ?thesis by (auto simp: updateUserStatistics_def Let_def)
next
  case False
  with assms have "fails OpUpdateUserStats" "fails OpCreateUserStats" by auto
  with False show ?thesis
    by (cases "getUserStats (storage w) user") (simp_all add: updateUserStatistics_def Let_def)
qed

lemma post_prayers_ok:
  assumes "\<not> fails OpUpdatePrayerRecord"
  shows "\<exists>rcd w1. storage_updatePrayerRecord fails now w demoUser d p = (Inr rcd, w1) \<and>
     post_prayers fails now w (Some (d, p)) = (Json rcd, updateUserStatistics fails now w1 demoUser)"
proof -
  from assms demoUser_nonempty storage_updatePrayerRecord_ok [where fails=fails and user=demoUser and now=now and w=w and d=d and p=p]
  obtain rcd w1 where a: "storage_updatePrayerRecord fails now w demoUser d p = (Inr rcd, w1)"
    by blast
  then have "post_prayers fails now w (Some (d, p)) = (Json rcd, updateUserStatistics fails now w1 demoUser)"
    by (simp add: post_prayers_def)
  with a show ?thesis by blast
qed

text \<open>
  Claim C9. When the write of \<^verbatim>\<open>POST /api/prayers\<close> succeeds, the handler answers with
  the written record whatever fails in the recomputation of the statistics, and the record is
  in the store. When reading the records, reading the statistics or writing them fails, the
  stored statistics stay as they were and the failure is one line on the console.
\<close>

theorem C9_reconciliation_failure_swallowed:
  assumes "\<not> fails OpUpdatePrayerRecord"
  shows "\<exists>rcd w'. post_prayers fails now w (Some (d, p)) = (Json rcd, w') \<and>
     getPrayerRecord (storage w') demoUser d = Some rcd \<and> prayers rcd = Some p \<and>
     (fails OpGetPrayerRecords \<or> fails OpGetUserStats \<or>
        (fails OpUpdateUserStats \<and> fails OpCreateUserStats) \<longrightarrow>
      userStats (storage w') = userStats (storage w) \<and>
      console w' = console w @ [''Failed to update user statistics: storage unavailable''])"
proof -
  from assms post_prayers_ok [where fails=fails and now=now and w=w and d=d and p=p]
  obtain rcd w1 where a: "storage_updatePrayerRecord fails now w demoUser d p = (Inr rcd, w1)"
    and r: "post_prayers fails now w (Some (d, p)) = (Json rcd, updateUserStatistics fails now w1 demoUser)"
    by blast
  from assms demoUser_nonempty storage_updatePrayerRecord_ok [where fails=fails and user=demoUser and now=now and w=w and d=d and p=p] a
  have g: "getPrayerRecord (storage w1) demoUser d = Some rcd" "prayers rcd = Some p"
    "userStats (storage w1) = userStats (storage w)" "console w1 = console w"
    by auto
  let ?w' = "updateUserStatistics fails now w1 demoUser"
  have k: "getPrayerRecord (storage ?w') demoUser d = Some rcd"
    using updateUserStatistics_frame [of fails now w1 demoUser] g(1)
    by (simp add: getPrayerRecord_def)
  have f: "fails OpGetPrayerRecords \<or> fails OpGetUserStats \<or>
        (fails OpUpdateUserStats \<and> fails OpCreateUserStats) \<longrightarrow>
      userStats (storage ?w') = userStats (storage w) \<and>
      console ?w' = console w @ [''Failed to update user statistics: storage unavailable'']"
  proof
    assume h: "fails OpGetPrayerRecords \<or> fails OpGetUserStats \<or>
        (fails OpUpdateUserStats \<and> fails OpCreateUserStats)"
    show "userStats (storage ?w') = userStats (storage w) \<and>
      console ?w' = console w @ [''Failed to update user statistics: storage unavailable'']"
      using h updateUserStatistics_failure [where fails=fails and now=now and w=w1 and user=demoUser] g(3,4)
      by (simp add: logFailure_def unavailable_def message_def)
  qed
  from r k g(2) f show ?thesis by blast
qed

text \<open>
  Claim C1. For every user, every store (one without records of the user included) and
  every clock, when no storage operation fails the statistics that \<^verbatim>\<open>updateUserStatistics\<close>
  leaves in the store have \<^verbatim>\<open>bestStreak >= currentStreak\<close>; so have the statistics in the
  store after \<^verbatim>\<open>POST /api/prayers\<close>.
\<close>

theorem C1_best_streak_invariant:
  assumes "user \<noteq> []" and "\<forall>op. \<not> fails op"
  shows "(\<exists>st. getUserStats (storage (updateUserStatistics fails now w user)) user = Some st \<and>
            UserStats.currentStreak st \<le> UserStats.bestStreak st) \<and>
         (\<exists>rcd w' st. post_prayers fails now w (Some (d, p)) = (Json rcd, w') \<and>
            getUserStats (storage w') demoUser = Some st \<and>
            UserStats.currentStreak st \<le> UserStats.bestStreak st)"
proof -
  have inv: "\<exists>st. getUserStats (storage (updateUserStatistics fails now v u)) u = Some st \<and>
            UserStats.currentStreak st \<le> UserStats.bestStreak st" if "u \<noteq> []" for v u
  proof -
    let ?cs = "computeStatistics u (todayOf now) (getPrayerRecords (storage v) u None None)"
    from that assms(2) updateUserStatistics_persists [where fails=fails and user=u and now=now and w=v]
    obtain st where s: "getUserStats (storage (updateUserStatistics fails now v u)) u = Some st"
      "Some (UserStats.currentStreak st) = InsertUserStats.currentStreak ?cs"
      "Some (UserStats.bestStreak st) = InsertUserStats.bestStreak ?cs"
      by blast
    from computeStatistics_Some [of u "todayOf now" "getPrayerRecords (storage v) u None None"] s(2,3)
    have "UserStats.currentStreak st \<le> UserStats.bestStreak st" by auto
    with s(1) show ?thesis by blast
  qed
  from assms(2) post_prayers_ok [where fails=fails and now=now and w=w and d=d and p=p]
  obtain rcd w1 where
    r: "post_prayers fails now w (Some (d, p)) = (Json rcd, updateUserStatistics fails now w1 demoUser)"
    by blast
  from inv [OF assms(1), of w] inv [OF demoUser_nonempty, of w1] r show ?thesis by blast
qed

theorem C1_best_streak_invariant_witness:
  "''demo-user'' \<noteq> [] \<and>
   (\<exists>st. getUserStats (storage (updateUserStatistics (\<lambda>op. False) 0 emptyWorld ''demo-user''))
            ''demo-user'' = Some st \<and>
         UserStats.currentStreak st \<le> UserStats.bestStreak st)"
  using C1_best_streak_invariant [where user="''demo-user''" and fails="\<lambda>op. False"
      and now=0 and w=emptyWorld]
  by simp

text \<open>
  Claim C8, as amended. A batch of \<open>n\<close> updates, \<open>1 \<le> n \<le> 7\<close>, whose upserts do not
  fail is answered with \<open>n\<close> records after exactly \<open>n\<close> calls of \<^verbatim>\<open>updatePrayerRecord\<close>,
  one per date in the order of the batch, followed by a single call of
  \<^verbatim>\<open>updateUserStatistics\<close> for the whole batch.
\<close>

theorem C8_batch_single_reconciliation:
  assumes "1 \<le> length updates" and "length updates \<le> 7" and "\<not> fails OpUpdatePrayerRecord"
  shows "\<exists>records w'. post_prayers_batch fails now w updates = (Json records, w') \<and>
     length records = length updates \<and>
     calls w' = calls w @ map (\<lambda>u. CallUpdatePrayerRecord demoUser (fst u)) updates
                @ [CallUpdateUserStatistics demoUser]"
  using assms by (rule post_prayers_batch_calls)

theorem C8_batch_single_reconciliation_witness:
  "1 \<le> length [(19723, allDone), (19724, fajrOnly)] \<and>
   length [(19723::date, allDone), (19724, fajrOnly)] \<le> 7 \<and>
   \<not> (\<lambda>op. False) OpUpdatePrayerRecord \<and>
   calls (snd (post_prayers_batch (\<lambda>op. False) 0 emptyWorld [(19723, allDone), (19724, fajrOnly)]))
     = [CallUpdatePrayerRecord demoUser 19723, CallUpdatePrayerRecord demoUser 19724,
        CallUpdateUserStatistics demoUser]"
  using C8_batch_single_reconciliation [where fails="\<lambda>op. False" and now=0 and w=emptyWorld
      and updates="[(19723, allDone), (19724, fajrOnly)]"]
  by (auto simp: emptyWorld_def)

text \<open>
  Claim C8 as stated asks for one pass of \<^verbatim>\<open>updateUserStatistics\<close> per date. For a batch of
  two dates the handler makes one pass.
\<close>

theorem C8_reconcile_per_date_counterexample:
  "length (filter (\<lambda>c. c = CallUpdateUserStatistics demoUser)
     (calls (snd (post_prayers_batch (\<lambda>op. False) 0 emptyWorld
        [(19723, allDone), (19724, fajrOnly)]))))
   \<noteq> length [(19723::date, allDone), (19724, fajrOnly)]"
  using post_prayers_batch_calls [where fails="\<lambda>op. False" and now=0 and w=emptyWorld
      and updates="[(19723, allDone), (19724, fajrOnly)]"]
  by (auto simp: emptyWorld_def)

theorem C9_reconciliation_failure_swallowed_witness:
  "\<not> (\<lambda>op. op \<noteq> OpUpdatePrayerRecord) OpUpdatePrayerRecord \<and>
   (\<exists>rcd w'. post_prayers (\<lambda>op. op \<noteq> OpUpdatePrayerRecord) 0 emptyWorld (Some (19723, allDone))
        = (Json rcd, w') \<and>
      getPrayerRecord (storage w') demoUser 19723 = Some rcd \<and> prayers rcd = Some allDone \<and>
      userStats (storage w') = [] \<and>
      console w' = [''Failed to update user statistics: storage unavailable''])"
  using C9_reconciliation_failure_swallowed [where fails="\<lambda>op. op \<noteq> OpUpdatePrayerRecord"
      and now=0 and w=emptyWorld and d=19723 and p=allDone]
  by (auto simp: emptyWorld_def emptyStorage_def)

section \<open>Creating an achievement twice\<close>

lemma sameKey_keyOf: "sameKey (orDemoUser (InsertAchievement.userId ins)) ins a \<longleftrightarrow> keyOf a = insertKey ins"
  by (auto simp: sameKey_def keyOf_def insertKey_def)

lemma sameKey_fun: "sameKey (orDemoUser (InsertAchievement.userId ins)) ins = (\<lambda>a. keyOf a = insertKey ins)"
  by (rule ext) (rule sameKey_keyOf)

lemma find_None_filter: "find P xs = None \<Longrightarrow> filter P xs = []"
  by (induction xs) (auto split: if_splits)

lemma find_Some_filter: "find P xs = Some x \<Longrightarrow> P x \<and> x \<in> set xs"
  by (induction xs) (auto split: if_splits)

lemma filter_single_find: "filter P xs = [x] \<Longrightarrow> find P xs = Some x"
  by (induction xs) (auto split: if_splits)

lemma distinct_key_filter:
  "distinct (map f xs) \<Longrightarrow> x \<in> set xs \<Longrightarrow> filter (\<lambda>y. f y = f x) xs = [x]"
proof (induction xs)
  case Nil
  then show ?case by simp
next
  case (Cons y ys)
  show ?case
  proof (cases "y = x")
    case True
    from Cons.prems(1) have "\<forall>z \<in> set ys. f z \<noteq> f y" by (auto simp: image_iff)
    then have "filter (\<lambda>z. f z = f y) ys = []" by (auto simp: filter_empty_conv)
    with True show ?thesis by simp
  next
    case False
    with Cons.prems have x: "x \<in> set ys" and d: "distinct (map f ys)" by auto
    from Cons.prems(1) x have "f y \<noteq> f x" by (auto simp: image_iff)
    with Cons.IH [OF d x] show ?thesis by simp
  qed
qed

lemma filter_update_fresh:
  "filter P (map snd al) = [] \<Longrightarrow> P v \<Longrightarrow> filter P (map snd (AList.update k v al)) = [v]"
  by (induction al) (auto split: if_splits)

lemma set_update_subset:
  "set (map snd (AList.update k v al)) \<subseteq> insert v (set (map snd al))"
  by (induction al) auto

lemma distinct_update_fresh:
  "distinct (map f (map snd al)) \<Longrightarrow> f v \<notin> f ` set (map snd al) \<Longrightarrow>
     distinct (map f (map snd (AList.update k v al)))"
proof (induction al)
  case Nil
  then show ?case by simp
next
  case (Cons p al)
  show ?case
  proof (cases "fst p = k")
    case True
    with Cons.prems show ?thesis by (auto simp: image_iff)
  next
    case False
    from Cons.prems have d: "distinct (map f (map snd al))"
      and n: "f v \<notin> f ` set (map snd al)" and m: "f (snd p) \<notin> f ` set (map snd al)"
      and e: "f (snd p) \<noteq> f v"
      by (auto simp: image_iff)
    have "set (map snd (AList.update k v al)) \<subseteq> insert v (set (map snd al))"
      by (rule set_update_subset)
    then have "f ` set (map snd (AList.update k v al)) \<subseteq> insert (f v) (f ` set (map snd al))"
      by blast
    with m e have "f (snd p) \<notin> f ` set (map snd (AList.update k v al))"
      by blast
    with Cons.IH [OF d n] False show ?thesis by (simp add: image_image)
  qed
qed

lemma createAchievement_cases:
  "createAchievement s ins uuid now =
     (case find (\<lambda>a. keyOf a = insertKey ins) (map snd (achievements s)) of
        Some a \<Rightarrow> (a, s)
      | None \<Rightarrow> (newAchievement ins uuid now,
                 s\<lparr> achievements := AList.update uuid (newAchievement ins uuid now) (achievements s) \<rparr>))"
  by (simp add: createAchievement_def Let_def sameKey_fun newAchievement_def split: option.split)

lemma keyOf_new: "keyOf (newAchievement ins uuid now) = insertKey ins"
  by (simp add: keyOf_def insertKey_def newAchievement_def)

lemma createAchievement_unique:
  assumes "distinct (map keyOf (map snd (achievements s)))"
  shows "distinct (map keyOf (map snd (achievements (snd (createAchievement s ins uuid now)))))"
proof (cases "find (\<lambda>a. keyOf a = insertKey ins) (map snd (achievements s))")
  case None
  then have "filter (\<lambda>a. keyOf a = insertKey ins) (map snd (achievements s)) = []"
    by (rule find_None_filter)
  then have "insertKey ins \<notin> keyOf ` set (map snd (achievements s))"
    by (auto simp: filter_empty_conv)
  with distinct_update_fresh [OF assms, of "newAchievement ins uuid now" uuid] None
  show ?thesis by (simp add: createAchievement_cases keyOf_new)
next
  case (Some a)
  with assms show ?thesis by (simp add: createAchievement_cases)
qed

lemma reachable_unique: "reachable s \<Longrightarrow> distinct (map keyOf (map snd (achievements s)))"
proof (induction rule: reachable.induct)
  case r_empty
  show ?case by (simp add: emptyStorage_def)
next
  case (r_createAchievement s ins uuid now)
  from r_createAchievement.IH show ?case by (rule createAchievement_unique)
next
  case (r_createPrayerRecord s user d p uuid now)
  then show ?case by (simp add: createPrayerRecord_def Let_def)
next
  case (r_updatePrayerRecord s u d p uuid now)
  then show ?case
    by (cases "map_of (prayerRecords s) (u, d)")
       (simp_all add: updatePrayerRecord_def createPrayerRecord_def Let_def)
next
  case (r_createUserStats s stats uuid now)
  then show ?case using createUserStats_result [of s stats uuid now] by auto
next
  case (r_updateUserStats s u updates now st s')
  then show ?case
    by (cases "map_of (userStats s) (Some u)") (auto simp: updateUserStats_def Let_def)
qed

lemma createAchievement_twice:
  assumes u: "distinct (map keyOf (map snd (achievements s)))"
    and k: "insertKey ins2 = insertKey ins1"
  shows "\<exists>a s1. createAchievement s ins1 uuid1 now1 = (a, s1) \<and>
           createAchievement s1 ins2 uuid2 now2 = (a, s1) \<and>
           filter (\<lambda>b. keyOf b = insertKey ins1) (map snd (achievements s1)) = [a]"
proof (cases "find (\<lambda>a. keyOf a = insertKey ins1) (map snd (achievements s))")
  case None
  let ?a = "newAchievement ins1 uuid1 now1"
  let ?s1 = "s\<lparr> achievements := AList.update uuid1 ?a (achievements s) \<rparr>"
  have c1: "createAchievement s ins1 uuid1 now1 = (?a, ?s1)"
    using None by (simp add: createAchievement_cases)
  have "filter (\<lambda>a. keyOf a = insertKey ins1) (map snd (achievements s)) = []"
    using None by (rule find_None_filter)
  then have f: "filter (\<lambda>b. keyOf b = insertKey ins1) (map snd (achievements ?s1)) = [?a]"
    using filter_update_fresh [of "\<lambda>b. keyOf b = insertKey ins1" "achievements s" ?a uuid1]
    by (simp add: keyOf_new)
  then have "find (\<lambda>b. keyOf b = insertKey ins1) (map snd (achievements ?s1)) = Some ?a"
    by (rule filter_single_find)
  then have c2: "createAchievement ?s1 ins2 uuid2 now2 = (?a, ?s1)"
    by (simp add: createAchievement_cases k)
  from c1 c2 f show ?thesis by blast
next
  case (Some a)
  have c1: "createAchievement s ins1 uuid1 now1 = (a, s)"
    using Some by (simp add: createAchievement_cases)
  have c2: "createAchievement s ins2 uuid2 now2 = (a, s)"
    using Some by (simp add: createAchievement_cases k)
  from find_Some_filter [OF Some] have m: "keyOf a = insertKey ins1" "a \<in> set (map snd (achievements s))"
    by auto
  from distinct_key_filter [OF u m(2)] m(1)
  have "filter (\<lambda>b. keyOf b = insertKey ins1) (map snd (achievements s)) = [a]" by simp
  with c1 c2 show ?thesis by blast
qed

lemma keyOf_newRow: "keyOf (newRow ins uuid now) = rowKey ins"
  by (simp add: keyOf_def rowKey_def newRow_def)

lemma sameRow_fun:
  "InsertAchievement.userId ins \<noteq> None \<Longrightarrow> sameRow ins = (\<lambda>a. keyOf a = rowKey ins)"
  by (rule ext) (auto simp: sameRow_def keyOf_def rowKey_def)

lemma sameRow_null: "InsertAchievement.userId ins = None \<Longrightarrow> find (sameRow ins) table = None"
  by (induction table) (auto simp: sameRow_def)

lemma db_createAchievement_cases:
  "db_createAchievement table ins uuid now =
     (case find (sameRow ins) table of
        Some a \<Rightarrow> (a, table)
      | None \<Rightarrow> (newRow ins uuid now, table @ [newRow ins uuid now]))"
  by (simp add: db_createAchievement_def Let_def newRow_def split: option.split)

lemma db_createAchievement_unique:
  assumes "distinct (map keyOf (filter hasUser table))"
  shows "distinct (map keyOf (filter hasUser (snd (db_createAchievement table ins uuid now))))"
proof (cases "find (sameRow ins) table")
  case (Some a)
  with assms show ?thesis by (simp add: db_createAchievement_cases)
next
  case None
  show ?thesis
  proof (cases "InsertAchievement.userId ins")
    case n: None
    then have "\<not> hasUser (newRow ins uuid now)" by (simp add: hasUser_def newRow_def)
    with assms None show ?thesis by (simp add: db_createAchievement_cases)
  next
    case (Some u)
    then have h: "InsertAchievement.userId ins \<noteq> None" by simp
    from None have "filter (sameRow ins) table = []" by (rule find_None_filter)
    then have "rowKey ins \<notin> keyOf ` set table"
      by (auto simp: sameRow_fun [OF h] filter_empty_conv)
    then have "rowKey ins \<notin> keyOf ` set (filter hasUser table)" by auto
    with assms None show ?thesis
      by (simp add: db_createAchievement_cases keyOf_newRow)
  qed
qed

lemma db_reachable_unique: "db_reachable table \<Longrightarrow> distinct (map keyOf (filter hasUser table))"
proof (induction rule: db_reachable.induct)
  case d_empty
  show ?case by simp
next
  case (d_createAchievement table ins uuid now)
  from d_createAchievement.IH show ?case by (rule db_createAchievement_unique)
qed

lemma filter_key_hasUser:
  "fst k \<noteq> None \<Longrightarrow> filter (\<lambda>b. keyOf b = k) table = filter (\<lambda>b. keyOf b = k) (filter hasUser table)"
  by (induction table) (auto simp: hasUser_def keyOf_def)

lemma db_createAchievement_twice:
  assumes u: "distinct (map keyOf (filter hasUser table))"
    and h: "InsertAchievement.userId ins1 \<noteq> None"
    and k: "rowKey ins2 = rowKey ins1"
  shows "\<exists>a t1. db_createAchievement table ins1 uuid1 now1 = (a, t1) \<and>
           db_createAchievement t1 ins2 uuid2 now2 = (a, t1) \<and>
           filter (sameRow ins1) t1 = [a]"
proof -
  from k h have h2: "InsertAchievement.userId ins2 \<noteq> None" by (simp add: rowKey_def)
  have e: "sameRow ins2 = sameRow ins1" by (simp add: sameRow_fun [OF h] sameRow_fun [OF h2] k)
  show ?thesis
  proof (cases "find (sameRow ins1) table")
    case None
    let ?a = "newRow ins1 uuid1 now1"
    have c1: "db_createAchievement table ins1 uuid1 now1 = (?a, table @ [?a])"
      using None by (simp add: db_createAchievement_cases)
    have "filter (sameRow ins1) table = []" using None by (rule find_None_filter)
    then have f: "filter (sameRow ins1) (table @ [?a]) = [?a]"
      by (simp add: sameRow_fun [OF h] keyOf_newRow)
    then have "find (sameRow ins1) (table @ [?a]) = Some ?a" by (rule filter_single_find)
    then have c2: "db_createAchievement (table @ [?a]) ins2 uuid2 now2 = (?a, table @ [?a])"
      by (simp add: db_createAchievement_cases e)
    from c1 c2 f show ?thesis by blast
  next
    case (Some a)
    have c1: "db_createAchievement table ins1 uuid1 now1 = (a, table)"
      using Some by (simp add: db_createAchievement_cases)
    have c2: "db_createAchievement table ins2 uuid2 now2 = (a, table)"
      using Some by (simp add: db_createAchievement_cases e)
    from find_Some_filter [OF Some] have m: "keyOf a = rowKey ins1" "a \<in> set table"
      by (auto simp: sameRow_fun [OF h])
    from m h have "hasUser a" by (simp add: hasUser_def keyOf_def rowKey_def)
    with m(2) have "a \<in> set (filter hasUser table)" by simp
    from distinct_key_filter [OF u this] m(1)
    have "filter (\<lambda>b. keyOf b = rowKey ins1) (filter hasUser table) = [a]" by simp
    moreover have "fst (rowKey ins1) \<noteq> None" using h by (simp add: rowKey_def)
    ultimately have "filter (sameRow ins1) table = [a]"
      using filter_key_hasUser [of "rowKey ins1" table] by (simp add: sameRow_fun [OF h])
    with c1 c2 show ?thesis by blast
  qed
qed

text \<open>
  Claim C3. In every state the store can reach, two calls of \<^verbatim>\<open>createAchievement\<close> with the
  same user, type and earned date (whatever the titles, the UUIDs drawn and the clock) return
  the same achievement, identifier included; the second call leaves the store as the first
  one left it, and the store then holds exactly one achievement with that key. This holds
  for \<^verbatim>\<open>MemStorage\<close>, and for \<^verbatim>\<open>DatabaseStorage\<close> when the user is not null, as it
  never is on the route.
\<close>

theorem C3_createAchievement_idempotent:
  assumes "reachable s" and "db_reachable table"
    and "InsertAchievement.userId ins2 = InsertAchievement.userId ins1"
    and "type ins2 = type ins1" and "earnedDate ins2 = earnedDate ins1"
  shows "(\<exists>a s1. createAchievement s ins1 uuid1 now1 = (a, s1) \<and>
            createAchievement s1 ins2 uuid2 now2 = (a, s1) \<and>
            filter (sameKey (orDemoUser (InsertAchievement.userId ins1)) ins1)
              (map snd (achievements s1)) = [a]) \<and>
         (InsertAchievement.userId ins1 \<noteq> None \<longrightarrow>
          (\<exists>a t1. db_createAchievement table ins1 uuid1 now1 = (a, t1) \<and>
            db_createAchievement t1 ins2 uuid2 now2 = (a, t1) \<and>
            filter (sameRow ins1) t1 = [a]))"
proof -
  have k: "insertKey ins2 = insertKey ins1" and r: "rowKey ins2 = rowKey ins1"
    using assms(3-5) by (simp_all add: insertKey_def rowKey_def)
  have m: "\<exists>a s1. createAchievement s ins1 uuid1 now1 = (a, s1) \<and>
            createAchievement s1 ins2 uuid2 now2 = (a, s1) \<and>
            filter (sameKey (orDemoUser (InsertAchievement.userId ins1)) ins1)
              (map snd (achievements s1)) = [a]"
    using createAchievement_twice [OF reachable_unique [OF assms(1)] k, of uuid1 now1 uuid2 now2]
    by (simp add: sameKey_fun)
  have d: "InsertAchievement.userId ins1 \<noteq> None \<longrightarrow>
          (\<exists>a t1. db_createAchievement table ins1 uuid1 now1 = (a, t1) \<and>
            db_createAchievement t1 ins2 uuid2 now2 = (a, t1) \<and>
            filter (sameRow ins1) t1 = [a])"
    using db_createAchievement_twice [OF db_reachable_unique [OF assms(2)] _ r, of uuid1 now1 uuid2 now2]
    by blast
  from m d show ?thesis by blast
qed

theorem C3_createAchievement_idempotent_witness:
  "reachable emptyStorage \<and> db_reachable [] \<and>
   InsertAchievement.userId (perfectDay (Some ''demo-user'') 19723) \<noteq> None \<and>
   (\<exists>a s1 t1.
      createAchievement emptyStorage (perfectDay (Some ''demo-user'') 19723) ''id-1'' 1 = (a, s1) \<and>
      createAchievement s1 (perfectDay (Some ''demo-user'') 19723) ''id-2'' 2 = (a, s1) \<and>
      map snd (achievements s1) = [a] \<and> Achievement.id a = ''id-1'' \<and>
      db_createAchievement [] (perfectDay (Some ''demo-user'') 19723) ''id-1'' 1 = (a, t1) \<and>
      db_createAchievement t1 (perfectDay (Some ''demo-user'') 19723) ''id-2'' 2 = (a, t1) \<and>
      t1 = [a])"
proof -
  let ?ins = "perfectDay (Some ''demo-user'') 19723"
  have u: "InsertAchievement.userId ?ins \<noteq> None" by (simp add: perfectDay_def)
  from C3_createAchievement_idempotent [OF r_empty d_empty, of ?ins ?ins "''id-1''" 1 "''id-2''" 2] u
  obtain a s1 b t1 where
    m: "createAchievement emptyStorage ?ins ''id-1'' 1 = (a, s1)"
       "createAchievement s1 ?ins ''id-2'' 2 = (a, s1)"
    and d: "db_createAchievement [] ?ins ''id-1'' 1 = (b, t1)"
       "db_createAchievement t1 ?ins ''id-2'' 2 = (b, t1)"
    by auto
  from m(1) have a: "a = newAchievement ?ins ''id-1'' 1"
    "s1 = emptyStorage\<lparr> achievements := [(''id-1'', newAchievement ?ins ''id-1'' 1)] \<rparr>"
    by (auto simp: createAchievement_cases emptyStorage_def)
  from d(1) have b: "b = newRow ?ins ''id-1'' 1" "t1 = [b]"
    by (auto simp: db_createAchievement_cases)
  have "newRow ?ins ''id-1'' 1 = newAchievement ?ins ''id-1'' 1"
    by (simp add: newRow_def newAchievement_def perfectDay_def orDemoUser_def)
  with a b have e: "b = a" by simp
  have i: "Achievement.id a = ''id-1''" using a(1) by (simp add: newAchievement_def)
  have l: "map snd (achievements s1) = [a]" using a by (simp add: emptyStorage_def)
  have t: "t1 = [a]" using b e by simp
  have d1: "db_createAchievement [] ?ins ''id-1'' 1 = (a, t1)" using d(1) e by simp
  have d2: "db_createAchievement t1 ?ins ''id-2'' 2 = (a, t1)" using d(2) e by simp
  have x: "createAchievement emptyStorage ?ins ''id-1'' 1 = (a, s1) \<and>
      createAchievement s1 ?ins ''id-2'' 2 = (a, s1) \<and>
      map snd (achievements s1) = [a] \<and> Achievement.id a = ''id-1'' \<and>
      db_createAchievement [] ?ins ''id-1'' 1 = (a, t1) \<and>
      db_createAchievement t1 ?ins ''id-2'' 2 = (a, t1) \<and>
      t1 = [a]"
    by (intro conjI m l i d1 d2 t)
  have "\<exists>a s1 t1.
      createAchievement emptyStorage ?ins ''id-1'' 1 = (a, s1) \<and>
      createAchievement s1 ?ins ''id-2'' 2 = (a, s1) \<and>
      map snd (achievements s1) = [a] \<and> Achievement.id a = ''id-1'' \<and>
      db_createAchievement [] ?ins ''id-1'' 1 = (a, t1) \<and>
      db_createAchievement t1 ?ins ''id-2'' 2 = (a, t1) \<and>
      t1 = [a]"
    by (intro exI) (rule x)
  with r_empty d_empty u show ?thesis by (intro conjI)
qed

section \<open>The period summary\<close>




















section \<open>Single-prayer streaks: which threshold is awarded\<close>

lemma consecutiveLoop_append:
  "consecutiveLoop lookup pt today (xs @ ys) c0 =
     (case consecutiveLoop lookup pt today xs c0 of
        Inl e \<Rightarrow> Inl e
      | Inr c \<Rightarrow> if c = c0 + int (length xs) then consecutiveLoop lookup pt today ys c else Inr c)"
    and consecutiveLoop_bounds:
  "consecutiveLoop lookup pt today xs c0 = Inr c \<Longrightarrow> c0 \<le> c \<and> c \<le> c0 + int (length xs)"
proof (induction xs arbitrary: c0 c)
  case Nil
  {
    case 1
    show ?case by simp
  next
    case 2
    then show ?case by simp
  }
next
  case (Cons i xs)
  {
    case 1
    show ?case
    proof (cases "lookup (today - int i)")
      case (Inl e)
      then show ?thesis by simp
    next
      case (Inr r)
      show ?thesis
      proof (cases "\<exists>rcd dp. r = Some rcd \<and> prayers rcd = Some dp \<and> completed (slot pt dp)")
        case True
        then obtain rcd dp where r: "r = Some rcd" "prayers rcd = Some dp" "completed (slot pt dp)"
          by blast
        show ?thesis
          using Inr r Cons.IH(1) [of "c0 + 1"]
          by (auto split: sum.splits)
      next
        case False
        with Inr show ?thesis by (auto split: option.splits)
      qed
    qed
  next
    case 2
    then show ?case
      using Cons.IH(2) [of "c0 + 1" c]
      by (auto split: sum.splits option.splits if_splits)
  }
qed

lemma consecutive_short:
  assumes "checkConsecutivePrayerCompletion lookup today pt 3 < 3" and "3 \<le> m"
  shows "checkConsecutivePrayerCompletion lookup today pt m < int m"
proof -
  have s: "[0..<m + 10] = [0..<13] @ [13..<m + 10]"
    using assms(2) upt_add_eq_append [of 0 13 "m - 3"] by (simp add: add.commute)
  show ?thesis
  proof (cases "consecutiveLoop lookup pt today [0..<13] 0")
    case (Inl e)
    then have "consecutiveLoop lookup pt today [0..<m + 10] 0 = Inl e"
      unfolding s consecutiveLoop_append by simp
    with assms(2) show ?thesis by (simp add: checkConsecutivePrayerCompletion_def)
  next
    case (Inr c)
    with assms(1) have c: "c < 3" by (simp add: checkConsecutivePrayerCompletion_def)
    with Inr have "consecutiveLoop lookup pt today [0..<m + 10] 0 = Inr c"
      unfolding s consecutiveLoop_append by simp
    with c assms(2) show ?thesis by (simp add: checkConsecutivePrayerCompletion_def)
  qed
qed

lemma slotMilestoneLoop_lowest:
  "slotMilestoneLoop lookup today pt tag name titles slotMilestones =
     (if checkConsecutivePrayerCompletion lookup today pt 3 \<ge> 3
      then [slotDescriptor today tag name titles 3] else [])"
proof (cases "checkConsecutivePrayerCompletion lookup today pt 3 \<ge> 3")
  case True
  then show ?thesis by (simp add: slotMilestones_def slotDescriptor_def)
next
  case False
  then have l: "checkConsecutivePrayerCompletion lookup today pt 3 < 3" by simp
  have "\<not> checkConsecutivePrayerCompletion lookup today pt m \<ge> int m" if "3 \<le> m" for m
    using consecutive_short [OF l that] by simp
  from this [of 3] this [of 7] this [of 15] this [of 30] this [of 60] this [of 100]
  show ?thesis using False by (simp add: slotMilestones_def)
qed

lemma fajr_week_streak:
  "checkConsecutivePrayerCompletion (fajrStreak 7 19792) 19792 Fajr 7 = 7"
  by code_simp

lemma fajr_week_short:
  "checkConsecutivePrayerCompletion (fajrStreak 7 19792) 19792 Fajr 3 = 7"
  by code_simp

lemma fajr_four_streak:
  "checkConsecutivePrayerCompletion (fajrStreak 4 19792) 19792 Fajr 3 = 4"
  by code_simp

text \<open>
  Claim C7 asks for an award only when the streak of the single prayer equals a threshold,
  and for the threshold matched. The three rule functions test
  \<^verbatim>\<open>consecutiveDays >= milestone\<close> from the lowest threshold up and stop at the first push:
  whatever the store holds, each returns the descriptor of threshold 3 when the streak is
  at least 3 and nothing otherwise, so the descriptors of 7, 15, 30, 60 and 100 are never
  returned. With Fajr completed on exactly the last seven days the streak is 7 and the
  award is "Early Starter" of threshold 3; with a streak of 4, which is no threshold, the
  same award is returned.
\<close>

theorem C7_only_lowest_threshold_awarded:
  "checkEarlyBirdAchievements lookup today =
     (if checkConsecutivePrayerCompletion lookup today Fajr 3 \<ge> 3
      then [slotDescriptor today ''early_bird'' ''fajr'' earlyBirdTitle 3] else []) \<and>
   checkNightOwlAchievements lookup today =
     (if checkConsecutivePrayerCompletion lookup today Isha 3 \<ge> 3
      then [slotDescriptor today ''night_owl'' ''isha'' nightOwlTitle 3] else []) \<and>
   checkGoldenHourAchievements lookup today =
     (if checkConsecutivePrayerCompletion lookup today Maghrib 3 \<ge> 3
      then [slotDescriptor today ''golden_hour'' ''maghrib'' goldenHourTitle 3] else []) \<and>
   checkConsecutivePrayerCompletion (fajrStreak 7 19792) 19792 Fajr 7 = 7 \<and>
   checkEarlyBirdAchievements (fajrStreak 7 19792) 19792 =
     [\<lparr> type = ''early_bird'', title = ''Early Starter'',
        description = ''3 consecutive days of Fajr prayers!'',
        metadata = Some [(''consecutiveDays'', JNum 3), (''prayerType'', JStr ''fajr''),
                         (''earnedDate'', JDate 19792)] \<rparr>] \<and>
   checkEarlyBirdAchievements (fajrStreak 4 19792) 19792 =
     [\<lparr> type = ''early_bird'', title = ''Early Starter'',
        description = ''3 consecutive days of Fajr prayers!'',
        metadata = Some [(''consecutiveDays'', JNum 3), (''prayerType'', JStr ''fajr''),
                         (''earnedDate'', JDate 19792)] \<rparr>]"
proof -
  have a: "checkEarlyBirdAchievements (fajrStreak 7 19792) 19792 =
     [\<lparr> type = ''early_bird'', title = ''Early Starter'',
        description = ''3 consecutive days of Fajr prayers!'',
        metadata = Some [(''consecutiveDays'', JNum 3), (''prayerType'', JStr ''fajr''),
                         (''earnedDate'', JDate 19792)] \<rparr>]"
    by (simp add: checkEarlyBirdAchievements_def slotMilestoneLoop_lowest fajr_week_short
        slotDescriptor_def earlyBirdTitle_def)
  have b: "checkEarlyBirdAchievements (fajrStreak 4 19792) 19792 =
     [\<lparr> type = ''early_bird'', title = ''Early Starter'',
        description = ''3 consecutive days of Fajr prayers!'',
        metadata = Some [(''consecutiveDays'', JNum 3), (''prayerType'', JStr ''fajr''),
                         (''earnedDate'', JDate 19792)] \<rparr>]"
    by (simp add: checkEarlyBirdAchievements_def slotMilestoneLoop_lowest fajr_four_streak
        slotDescriptor_def earlyBirdTitle_def)
  show ?thesis
    unfolding a b fajr_week_streak
    by (simp add: checkEarlyBirdAchievements_def checkNightOwlAchievements_def
        checkGoldenHourAchievements_def slotMilestoneLoop_lowest)
qed

section \<open>The records of a user in a reachable store\<close>

lemma list_all_update:
  "list_all P al \<Longrightarrow> P (k, v) \<Longrightarrow> list_all P (AList.update k v al)"
  by (induction al) auto

lemma createPrayerRecord_keyed:
  "recordsKeyed s \<Longrightarrow> recordsKeyed (snd (createPrayerRecord s user d (Some p) uuid now))"
  by (simp add: recordsKeyed_def createPrayerRecord_def Let_def distinct_update list_all_update)

lemma updatePrayerRecord_keyed:
  assumes "recordsKeyed s"
  shows "recordsKeyed (snd (updatePrayerRecord s u d (Some p) uuid now))"
proof (cases "map_of (prayerRecords s) (u, d)")
  case None
  then have "updatePrayerRecord s u d (Some p) uuid now
      = createPrayerRecord s (Some u) d (Some p) uuid now"
    by (simp add: updatePrayerRecord_def)
  with createPrayerRecord_keyed [OF assms] show ?thesis by simp
next
  case (Some existing)
  then have "((u, d), existing) \<in> set (prayerRecords s)" by (rule map_of_SomeD)
  with assms have e: "PrayerRecord.userId existing = Some u" "date existing = d"
    by (auto simp: recordsKeyed_def list_all_iff)
  with Some assms show ?thesis
    by (simp add: updatePrayerRecord_def Let_def recordsKeyed_def distinct_update list_all_update)
qed

lemma reachable_keyed: "reachable s \<Longrightarrow> recordsKeyed s"
proof (induction rule: reachable.induct)
  case r_empty
  show ?case by (simp add: recordsKeyed_def emptyStorage_def)
next
  case (r_createAchievement s ins uuid now)
  then show ?case
    by (simp add: recordsKeyed_def createAchievement_cases split: option.splits)
next
  case (r_createPrayerRecord s user d p uuid now)
  from r_createPrayerRecord.IH show ?case by (rule createPrayerRecord_keyed)
next
  case (r_updatePrayerRecord s u d p uuid now)
  from r_updatePrayerRecord.IH show ?case by (rule updatePrayerRecord_keyed)
next
  case (r_createUserStats s stats uuid now)
  then show ?case
    using createUserStats_result [of s stats uuid now] by (auto simp: recordsKeyed_def)
next
  case (r_updateUserStats s u updates now st s')
  then show ?case
    by (cases "map_of (userStats s) (Some u)")
       (auto simp: updateUserStats_def Let_def recordsKeyed_def)
qed

lemma keyed_dates_distinct:
  assumes "distinct (map fst al)"
    and "list_all (\<lambda>e. PrayerRecord.userId (snd e) = Some (fst (fst e)) \<and>
                   date (snd e) = snd (fst e) \<and> prayers (snd e) \<noteq> None) al"
  shows "distinct (map date (filter (\<lambda>r. PrayerRecord.userId r = Some user) (map snd al)))"
  using assms
proof (induction al)
  case Nil
  show ?case by simp
next
  case (Cons e al)
  from Cons.prems have d: "distinct (map fst al)" and k: "fst e \<notin> fst ` set al"
    and a: "list_all (\<lambda>e. PrayerRecord.userId (snd e) = Some (fst (fst e)) \<and>
                   date (snd e) = snd (fst e) \<and> prayers (snd e) \<noteq> None) al"
    and h: "PrayerRecord.userId (snd e) = Some (fst (fst e))" "date (snd e) = snd (fst e)"
    by auto
  note ih = Cons.IH [OF d a]
  show ?case
  proof (cases "PrayerRecord.userId (snd e) = Some user")
    case False
    with ih show ?thesis by simp
  next
    case True
    have "date (snd e) \<notin> date ` set (filter (\<lambda>r. PrayerRecord.userId r = Some user) (map snd al))"
    proof
      assume "date (snd e) \<in> date ` set (filter (\<lambda>r. PrayerRecord.userId r = Some user) (map snd al))"
      then obtain e' where e': "e' \<in> set al" "PrayerRecord.userId (snd e') = Some user"
        "date (snd e') = date (snd e)" by auto
      from a e'(1) have "PrayerRecord.userId (snd e') = Some (fst (fst e'))"
        "date (snd e') = snd (fst e')" by (auto simp: list_all_iff)
      with e'(2,3) h True have "fst e' = fst e" by (simp add: prod_eq_iff)
      with e'(1) k show False by (metis image_eqI)
    qed
    with ih True show ?thesis by simp
  qed
qed

lemma reachable_records:
  assumes "reachable s"
  shows "distinct (map date (getPrayerRecords s user None None)) \<and>
         (\<forall>r \<in> set (getPrayerRecords s user None None). prayers r \<noteq> None)"
proof -
  from reachable_keyed [OF assms] have d: "distinct (map fst (prayerRecords s))"
    and a: "list_all (\<lambda>e. PrayerRecord.userId (snd e) = Some (fst (fst e)) \<and>
                   date (snd e) = snd (fst e) \<and> prayers (snd e) \<noteq> None) (prayerRecords s)"
    by (simp_all add: recordsKeyed_def)
  from keyed_dates_distinct [OF d a, of user]
  have "distinct (map date (getPrayerRecords s user None None))"
    by (simp add: getPrayerRecords_def)
  moreover from a have "\<forall>r \<in> set (getPrayerRecords s user None None). prayers r \<noteq> None"
    by (auto simp: getPrayerRecords_def list_all_iff)
  ultimately show ?thesis by simp
qed

section \<open>The current streak\<close>

lemma daysDiff_eq: "daysDiff a b = a - b"
proof -
  have "86400000 * a - 86400000 * b = (a - b) * 86400000" by (simp add: algebra_simps)
  then have "(86400000 * a - 86400000 * b) div 86400000 = a - b" by simp
  then show ?thesis by (simp add: daysDiff_def getTime_def)
qed

lemma streak_broken_stays:
  "fst (foldl streakStep (c, True, prev) xs) = c"
proof (induction xs)
  case Nil
  show ?case by simp
next
  case (Cons r xs)
  have "streakStep (c, True, prev) r = (c, True, prev)"
    by (auto simp: Let_def split: option.splits)
  with Cons show ?case by simp
qed

lemma streak_walk:
  assumes "sorted_wrt (\<lambda>a b. date b < date a) xs"
    and "\<forall>r \<in> set xs. prayers r \<noteq> None"
    and "\<forall>pd. prev = Some pd \<longrightarrow> (\<forall>r \<in> set xs. date r < pd)"
  shows "fst (foldl streakStep (c, False, prev) xs) = c + specStreak prev xs"
  using assms
proof (induction xs arbitrary: c prev)
  case Nil
  show ?case by simp
next
  case (Cons r xs)
  from Cons.prems(2) obtain p where p: "prayers r = Some p" by auto
  from Cons.prems(1) have s: "sorted_wrt (\<lambda>a b. date b < date a) xs"
    and lt: "\<forall>x \<in> set xs. date x < date r" by auto
  from Cons.prems(2) have pr: "\<forall>x \<in> set xs. prayers x \<noteq> None" by simp
  have nx: "\<forall>pd. Some (date r) = Some pd \<longrightarrow> (\<forall>x \<in> set xs. date x < pd)"
    using lt by simp
  note ih = Cons.IH [OF s pr nx, of "c + 1"]
  show ?case
  proof (cases "allCompleted p")
    case False
    then have "streakStep (c, False, prev) r = (c, True, prev)"
      using p by (auto simp: Let_def split: option.splits)
    with False p show ?thesis
      by (simp add: streak_broken_stays allCompleted_def)
  next
    case True
    show ?thesis
    proof (cases prev)
      case None
      with True p have "streakStep (c, False, prev) r = (c + 1, False, Some (date r))"
        by (simp add: Let_def)
      with ih True p None show ?thesis by (simp add: allCompleted_def)
    next
      case (Some pd)
      with Cons.prems(3) have d: "date r < pd" by simp
      show ?thesis
      proof (cases "pd - date r = 1")
        case one: True
        with True p Some have "streakStep (c, False, prev) r = (c + 1, False, Some (date r))"
          by (simp add: Let_def daysDiff_eq)
        with ih True p Some one show ?thesis by (simp add: allCompleted_def)
      next
        case gap: False
        with d have "pd - date r > 1" by simp
        with True p Some have "streakStep (c, False, prev) r = (c, True, prev)"
          by (simp add: Let_def daysDiff_eq)
        with True p Some gap show ?thesis
          by (simp add: streak_broken_stays allCompleted_def)
      qed
    qed
  qed
qed

lemma sortDescending_strict:
  assumes "distinct (map date rs)"
  shows "sorted_wrt (\<lambda>a b. date b < date a) (sortDescending rs)"
proof -
  let ?xs = "sort_key (\<lambda>r. - date r) rs"
  have "mset (map date ?xs) = mset (map date rs)" by simp
  with assms have d: "distinct (map date ?xs)" by (metis mset_eq_imp_distinct_iff)
  have "distinct (map (\<lambda>r. - date r) ?xs)"
  proof -
    have "distinct ?xs \<and> inj_on date (set ?xs)" using d by (simp only: distinct_map)
    then have "distinct ?xs \<and> inj_on (\<lambda>r. - date r) (set ?xs)"
      by (auto simp: inj_on_def)
    then show ?thesis by (simp only: distinct_map)
  qed
  moreover have "sorted (map (\<lambda>r. - date r) ?xs)" by (rule sorted_sort_key)
  ultimately have "sorted_wrt (<) (map (\<lambda>r. - date r) ?xs)"
    by (simp add: strict_sorted_iff)
  then show ?thesis by (simp add: sorted_wrt_map sortDescending_def)
qed

lemma currentStreak_computed:
  "InsertUserStats.currentStreak (computeStatistics user today rs)
     = Some (currentStreakOf (sortDescending rs))"
  by (cases "historyOf (sortAscending (sortDescending rs))")
     (simp add: computeStatistics_def Let_def)

lemma currentStreak_spec:
  assumes "distinct (map date rs)" and "\<forall>r \<in> set rs. prayers r \<noteq> None"
  shows "currentStreakOf (sortDescending rs) = specStreak None (sortDescending rs)"
proof -
  have "\<forall>r \<in> set (sortDescending rs). prayers r \<noteq> None"
    using assms(2) by (simp add: sortDescending_def)
  from streak_walk [OF sortDescending_strict [OF assms(1)] this, of None 0]
  show ?thesis by (simp add: currentStreakOf_def)
qed

lemma gapExample_streak: "currentStreakOf (sortDescending gapExample) = 1"
  by code_simp

lemma gapExample_distinct: "distinct (map date gapExample)"
  by code_simp

lemma gapExample_prayers: "\<forall>r \<in> set gapExample. prayers r \<noteq> None"
  by (simp add: gapExample_def recordOn_def)

text \<open>
  Claim C2. The first loop walks the records sorted by date, the most recent first. When no
  two records have the same date and every record has its prayers object, the streak it
  computes is the streak of the specification: a day counts when all five slots are completed
  and it is exactly one day before the day counted last, and the first gap or incomplete day
  ends the walk. The records a reachable store returns for a user are such records. For the
  records of 2024-01-01, 01-02, 01-03 and 01-05, all complete, the current streak is 1.
\<close>

theorem C2_current_streak_walk:
  "(distinct (map date rs) \<and> (\<forall>r \<in> set rs. prayers r \<noteq> None) \<longrightarrow>
      sorted_wrt (\<lambda>a b. date b < date a) (sortDescending rs) \<and>
      InsertUserStats.currentStreak (computeStatistics user today rs)
        = Some (specStreak None (sortDescending rs))) \<and>
   (reachable s \<longrightarrow>
      InsertUserStats.currentStreak
        (computeStatistics user today (getPrayerRecords s user None None))
        = Some (specStreak None (sortDescending (getPrayerRecords s user None None)))) \<and>
   InsertUserStats.currentStreak (computeStatistics user today gapExample) = Some 1"
proof -
  have a: "distinct (map date rs) \<and> (\<forall>r \<in> set rs. prayers r \<noteq> None) \<longrightarrow>
      sorted_wrt (\<lambda>a b. date b < date a) (sortDescending rs) \<and>
      InsertUserStats.currentStreak (computeStatistics user today rs)
        = Some (specStreak None (sortDescending rs))"
    using sortDescending_strict [of rs] currentStreak_spec [of rs]
    by (simp add: currentStreak_computed)
  have b: "reachable s \<longrightarrow>
      InsertUserStats.currentStreak
        (computeStatistics user today (getPrayerRecords s user None None))
        = Some (specStreak None (sortDescending (getPrayerRecords s user None None)))"
    using reachable_records [of s user]
      currentStreak_spec [of "getPrayerRecords s user None None"]
    by (simp add: currentStreak_computed)
  have c: "InsertUserStats.currentStreak (computeStatistics user today gapExample) = Some 1"
    using gapExample_streak by (simp add: currentStreak_computed)
  note bc = conjI [OF b c]
  show ?thesis by (rule conjI [OF a bc])
qed

theorem C2_current_streak_walk_witness:
  "distinct (map date gapExample) \<and> list_all (\<lambda>r. prayers r \<noteq> None) gapExample \<and>
   specStreak None (sortDescending gapExample) = 1 \<and>
   InsertUserStats.currentStreak (computeStatistics ''demo-user'' 19727 gapExample) = Some 1"
  using C2_current_streak_walk [where rs=gapExample and user="''demo-user''" and today=19727
      and s=emptyStorage]
    gapExample_distinct gapExample_prayers
  by (auto simp: list_all_iff)

section \<open>Perfect weeks\<close>






































end
